theory Spec2Isabelle
  imports Complex_Main
begin

section \<open>Multi-band MelGAN: prototype filter, PQMF filterbank and generator\<close>

text \<open>
  A shallow embedding of \<^verbatim>\<open>tensorflow_tts/models/mb_melgan.py\<close>.

  Python integers are \<^typ>\<open>int\<close>. NumPy double values are modelled by \<^typ>\<open>real\<close>
  numbers extended with the three special values of the floating-point format
  (\<open>nan\<close>, \<open>+inf\<close>, \<open>-inf\<close>). Arithmetic on finite values is exact real arithmetic: the
  rounding of double precision and the final cast to single precision are abstracted
  away. Two effects of the format are kept, because they decide whether a result is a
  number at all: the indeterminate form \<open>0/0\<close> of the windowed-sinc design, and the
  overflow of the Bessel function of the Kaiser window, whose value grows like \<open>exp beta\<close>
  and leaves the range of double precision for a large shape parameter.
  Exceptions are values of a result type: \<open>Inl\<close> carries the error.
\<close>

subsection \<open>Errors\<close>

text \<open>
  A failing Python \<^verbatim>\<open>assert\<close> raises \<open>AssertionError\<close> with the message given in the
  source (the empty string when the source gives none). \<open>IndexError\<close> is NumPy's
  out-of-bounds index, \<open>ValueError\<close> a negative array dimension, \<open>ShapeError\<close> the
  failure of a TensorFlow operation whose argument shapes do not fit.

  \<open>NotInt64\<close> is not an exception of the program. It marks a configuration that the
  model does not cover: upsampling scales that do not fit NumPy's 64-bit integer type
  (see \<open>np_prod\<close> below).
\<close>

datatype error = AssertionError string | IndexError | ValueError | ShapeError | NotInt64

subsection \<open>NumPy floating-point values\<close>

datatype npfloat = Fin real | PInf | NInf | NaN

fun np_div :: "npfloat \<Rightarrow> npfloat \<Rightarrow> npfloat" where
  "np_div (Fin a) (Fin b) =
     (if b = 0 then (if a = 0 then NaN else if 0 < a then PInf else NInf) else Fin (a / b))"
| "np_div (Fin a) PInf = Fin 0"
| "np_div (Fin a) NInf = Fin 0"
| "np_div PInf (Fin b) = (if 0 \<le> b then PInf else NInf)"
| "np_div NInf (Fin b) = (if 0 \<le> b then NInf else PInf)"
| "np_div _ _ = NaN"

fun np_mul :: "npfloat \<Rightarrow> npfloat \<Rightarrow> npfloat" where
  "np_mul (Fin a) (Fin b) = Fin (a * b)"
| "np_mul NaN _ = NaN"
| "np_mul _ NaN = NaN"
| "np_mul (Fin a) PInf = (if a = 0 then NaN else if 0 < a then PInf else NInf)"
| "np_mul (Fin a) NInf = (if a = 0 then NaN else if 0 < a then NInf else PInf)"
| "np_mul PInf (Fin b) = (if b = 0 then NaN else if 0 < b then PInf else NInf)"
| "np_mul NInf (Fin b) = (if b = 0 then NaN else if 0 < b then NInf else PInf)"
| "np_mul PInf PInf = PInf"
| "np_mul PInf NInf = NInf"
| "np_mul NInf PInf = NInf"
| "np_mul NInf NInf = PInf"

fun is_finite :: "npfloat \<Rightarrow> bool" where
  "is_finite (Fin a) = True"
| "is_finite _ = False"

text \<open>\<^verbatim>\<open>np.arange(m)\<close>: the integers \<open>0, \<dots>, m - 1\<close> (none when \<open>m \<le> 0\<close>).\<close>

definition arange :: "int \<Rightarrow> int list" where
  "arange m = [0..m - 1]"

text \<open>
  \<^verbatim>\<open>a[i] = v\<close> on a one-dimensional array: a negative index counts from the end, an
  index outside the array raises \<open>IndexError\<close>.
\<close>

definition np_setitem :: "'a list \<Rightarrow> int \<Rightarrow> 'a \<Rightarrow> error + 'a list" where
  "np_setitem xs i v =
     (let n = int (length xs); j = (if i < 0 then i + n else i)
      in if 0 \<le> j \<and> j < n then Inr (xs[nat j := v]) else Inl IndexError)"

subsection \<open>The Kaiser window\<close>

text \<open>
  Modelled from the spec: the Kaiser window of a given length with shape parameter
  \<open>beta\<close>. The source takes it from \<^verbatim>\<open>scipy.signal.kaiser\<close>, a library function that is
  not part of the repository; the definition follows the library's documented formula
  \<open>w[n] = I0 (beta * sqrt (1 - ((n - alpha) / alpha)^2)) / I0 beta\<close> with
  \<open>alpha = (M - 1) / 2\<close>, where \<open>I0\<close> is the modified Bessel function of the first kind
  of order zero, given by its power series. A window of length at most one is all ones,
  and a negative length is refused.

  The library evaluates \<open>I0 x\<close> in double precision as \<open>exp \<bar>x\<bar>\<close> times a bounded
  polynomial factor, so its result is \<open>+inf\<close> as soon as \<open>exp \<bar>x\<bar>\<close> exceeds the largest
  finite double, \<open>max_float64 = 2^1024 - 2^971\<close> (that is, for \<open>\<bar>x\<bar>\<close> beyond about 709.78).
  \<open>np_i0\<close> keeps this overflow; the window of a large \<open>beta\<close> then contains \<open>inf/inf = nan\<close>,
  as the library documents.
\<close>

definition bessel_i0 :: "real \<Rightarrow> real" where
  "bessel_i0 x = (\<Sum>k. ((x / 2) ^ k / fact k) ^ 2)"

definition max_float64 :: real where
  "max_float64 = 2 ^ 1024 - 2 ^ 971"

definition np_i0 :: "real \<Rightarrow> npfloat" where
  "np_i0 x = (if max_float64 < exp \<bar>x\<bar> then PInf else Fin (bessel_i0 x))"

definition kaiser :: "int \<Rightarrow> real \<Rightarrow> error + npfloat list" where
  "kaiser M beta =
     (if M < 0 then Inl ValueError
      else if M \<le> 1 then Inr (replicate (nat M) (Fin 1))
      else
        let alpha = (of_int M - 1) / 2
        in Inr (map (\<lambda>n. np_div
                   (np_i0 (beta * sqrt (1 - ((of_int n - alpha) / alpha) ^ 2)))
                   (np_i0 beta))
              (arange M)))"

subsection \<open>The prototype filter\<close>

definition design_prototype_filter :: "int \<Rightarrow> real \<Rightarrow> real \<Rightarrow> error + npfloat list" where
  "design_prototype_filter taps cutoff_ratio beta =
     (if taps mod 2 \<noteq> 0 then Inl (AssertionError ''The number of taps mush be even number.'')
      else if \<not> (0 < cutoff_ratio \<and> cutoff_ratio < 1)
        then Inl (AssertionError ''Cutoff ratio must be > 0.0 and < 1.0.'')
      else
        let omega_c = pi * cutoff_ratio;
            h_i = map (\<lambda>n. np_div
                        (Fin (sin (omega_c * (of_int n - 0.5 * of_int taps))))
                        (Fin (pi * (of_int n - 0.5 * of_int taps))))
                    (arange (taps + 1))
        in case np_setitem h_i (taps div 2) (Fin (cos 0 * cutoff_ratio)) of
             Inl e \<Rightarrow> Inl e
           | Inr h_i' \<Rightarrow>
               (case kaiser (taps + 1) beta of
                  Inl e \<Rightarrow> Inl e
                | Inr w \<Rightarrow> Inr (map2 np_mul h_i' w)))"

text \<open>
  The specification's reading of the pre-window samples: the ideal low-pass impulse
  response for \<open>n = 0..taps\<close>, with the sample at the singular index \<open>n = taps / 2\<close> set to
  \<open>cutoff_ratio\<close>.
\<close>

definition spec_ideal_lowpass :: "int \<Rightarrow> real \<Rightarrow> npfloat list" where
  "spec_ideal_lowpass taps cutoff_ratio =
     map (\<lambda>n. if n = taps div 2 then Fin cutoff_ratio
               else Fin (sin (pi * cutoff_ratio * (of_int n - of_int taps / 2))
                          / (pi * (of_int n - of_int taps / 2))))
       [0..taps]"

subsection \<open>The configuration\<close>

text \<open>
  The fields of the generator configuration that the modelled code reads. (The bias
  switch, the weight normalisation, the initialiser seed and the padding type only select
  how the layers compute values; they have no part in what is modelled here.)
\<close>

record config =
  cfg_filters :: int
  cfg_kernel_size :: int
  cfg_upsample_scales :: "int list"
  cfg_stacks :: int
  cfg_stack_kernel_size :: int
  cfg_nonlinear_activation :: string
  cfg_out_channels :: int
  cfg_use_final_nolinear_activation :: bool
  cfg_subbands :: int
  cfg_taps :: int
  cfg_cutoff_ratio :: real
  cfg_beta :: real

subsection \<open>The PQMF filterbank: \<open>TFPQMF.__init__\<close>\<close>

text \<open>
  NumPy arrays of two and three dimensions are nested lists. \<open>np_shape3\<close> reads the shape
  of a three-dimensional array off its first elements, which is the array's shape
  whenever no dimension is zero.
\<close>

definition np_zeros2 :: "nat \<Rightarrow> nat \<Rightarrow> npfloat list list" where
  "np_zeros2 a b = replicate a (replicate b (Fin 0))"

definition np_zeros3 :: "nat \<Rightarrow> nat \<Rightarrow> nat \<Rightarrow> npfloat list list list" where
  "np_zeros3 a b c = replicate a (replicate b (replicate c (Fin 0)))"

definition np_shape3 :: "'a list list list \<Rightarrow> nat \<times> nat \<times> nat" where
  "np_shape3 a =
     (length a,
      (case a of [] \<Rightarrow> 0 | r # _ \<Rightarrow> length r),
      (case a of [] \<Rightarrow> 0 | r # _ \<Rightarrow> (case r of [] \<Rightarrow> 0 | c # _ \<Rightarrow> length c)))"

text \<open>\<^verbatim>\<open>np.expand_dims(a, 1)\<close> and \<^verbatim>\<open>np.expand_dims(a, 0)\<close> of a two-dimensional array.\<close>

definition np_expand_dims_1 :: "'a list list \<Rightarrow> 'a list list list" where
  "np_expand_dims_1 a = map (\<lambda>row. [row]) a"

definition np_expand_dims_0 :: "'a list list \<Rightarrow> 'a list list list" where
  "np_expand_dims_0 a = [a]"

text \<open>\<^verbatim>\<open>np.transpose(a, (2, 1, 0))\<close>: the entry \<open>[i, j, k]\<close> of the result is \<open>a[k, j, i]\<close>.\<close>

definition np_transpose_210 :: "'a list list list \<Rightarrow> 'a list list list" where
  "np_transpose_210 a =
     (case np_shape3 a of (d0, d1, d2) \<Rightarrow>
        map (\<lambda>i. map (\<lambda>j. map (\<lambda>k. a ! k ! j ! i) [0..<d0]) [0..<d1]) [0..<d2])"

text \<open>\<^verbatim>\<open>a[i, j, k] = v\<close> on a three-dimensional array, for indices inside the array.\<close>

definition np_setitem3 :: "'a list list list \<Rightarrow> nat \<Rightarrow> nat \<Rightarrow> nat \<Rightarrow> 'a \<Rightarrow> 'a list list list" where
  "np_setitem3 a i j k v = a[i := (a ! i)[j := (a ! i ! j)[k := v]]]"

text \<open>
  The two rows computed in the body of the loop over the sub-band index \<open>k\<close>: the
  prototype filter modulated by a cosine, with the phase offset \<open>(-1)^k \<pi>/4\<close> added for
  analysis and subtracted for synthesis.
\<close>

definition analysis_row :: "int \<Rightarrow> int \<Rightarrow> npfloat list \<Rightarrow> nat \<Rightarrow> npfloat list" where
  "analysis_row subbands taps h_proto k =
     map2 (\<lambda>h n. np_mul (np_mul (Fin 2) h)
             (Fin (cos ((2 * of_nat k + 1) * (pi / (2 * of_int subbands))
                          * (of_int n - of_int taps / 2)
                        + (- 1) ^ k * pi / 4))))
       h_proto (arange (taps + 1))"

definition synthesis_row :: "int \<Rightarrow> int \<Rightarrow> npfloat list \<Rightarrow> nat \<Rightarrow> npfloat list" where
  "synthesis_row subbands taps h_proto k =
     map2 (\<lambda>h n. np_mul (np_mul (Fin 2) h)
             (Fin (cos ((2 * of_nat k + 1) * (pi / (2 * of_int subbands))
                          * (of_int n - of_int taps / 2)
                        - (- 1) ^ k * pi / 4))))
       h_proto (arange (taps + 1))"

text \<open>
  The arrays \<open>h_analysis\<close> and \<open>h_synthesis\<close> after the loop \<^verbatim>\<open>for k in range(subbands)\<close>:
  they start as zeros of shape \<open>(subbands, len(h_proto))\<close> and row \<open>k\<close> is assigned in
  iteration \<open>k\<close>.
\<close>

definition h_analysis :: "int \<Rightarrow> int \<Rightarrow> npfloat list \<Rightarrow> npfloat list list" where
  "h_analysis subbands taps h_proto =
     foldl (\<lambda>h k. h[k := analysis_row subbands taps h_proto k])
       (np_zeros2 (nat subbands) (length h_proto)) [0..<nat subbands]"

definition h_synthesis :: "int \<Rightarrow> int \<Rightarrow> npfloat list \<Rightarrow> npfloat list list" where
  "h_synthesis subbands taps h_proto =
     foldl (\<lambda>h k. h[k := synthesis_row subbands taps h_proto k])
       (np_zeros2 (nat subbands) (length h_proto)) [0..<nat subbands]"

text \<open>The filter for down- and upsampling: zeros with \<open>[0, k, k] = 1\<close> for every \<open>k\<close>.\<close>

definition make_updown_filter :: "int \<Rightarrow> npfloat list list list" where
  "make_updown_filter subbands =
     foldl (\<lambda>u k. np_setitem3 u 0 k k (Fin 1))
       (np_zeros3 (nat subbands) (nat subbands) (nat subbands)) [0..<nat subbands]"

record pqmf =
  pqmf_subbands :: int
  pqmf_taps :: int
  analysis_filter :: "npfloat list list list"
  synthesis_filter :: "npfloat list list list"
  updown_filter :: "npfloat list list list"

text \<open>\<^verbatim>\<open>np.zeros\<close> refuses a negative dimension, so a negative \<open>subbands\<close> is a \<open>ValueError\<close>.\<close>

definition TFPQMF_init :: "config \<Rightarrow> error + pqmf" where
  "TFPQMF_init cfg =
     (let subbands = cfg_subbands cfg; taps = cfg_taps cfg
      in case design_prototype_filter taps (cfg_cutoff_ratio cfg) (cfg_beta cfg) of
           Inl e \<Rightarrow> Inl e
         | Inr h_proto \<Rightarrow>
             if subbands < 0 then Inl ValueError
             else Inr \<lparr> pqmf_subbands = subbands,
                        pqmf_taps = taps,
                        analysis_filter =
                          np_transpose_210 (np_expand_dims_1 (h_analysis subbands taps h_proto)),
                        synthesis_filter =
                          np_transpose_210 (np_expand_dims_0 (h_synthesis subbands taps h_proto)),
                        updown_filter = make_updown_filter subbands \<rparr>)"

subsection \<open>Tensor shapes and the PQMF operations\<close>

text \<open>
  The TensorFlow side is modelled on shapes: a tensor is represented by its shape
  \<open>(batch, time, channels)\<close>, a filter by the shape of its array. Each operation checks
  what TensorFlow checks and computes the shape TensorFlow computes:

  \<^item> \<^verbatim>\<open>tf.pad\<close> with paddings \<open>[[0,0],[p,p],[0,0]]\<close> adds \<open>p\<close> on each side of the time axis;
  \<^item> \<^verbatim>\<open>tf.nn.conv1d\<close> with \<open>VALID\<close> padding needs the input channels of the filter
    \<open>(width, in, out)\<close> and yields \<open>(time - width + stride) / stride\<close> steps (the quotient
    truncated), failing when that is negative;
  \<^item> \<^verbatim>\<open>tf.nn.conv1d_transpose\<close> (padding \<open>SAME\<close>) with a filter \<open>(width, out, in)\<close> yields the
    requested output shape, which must fit the input: same batch, the filter's output
    channels, and \<open>time = ceil (out_time / stride)\<close>.
\<close>

type_synonym shape = "nat \<times> nat \<times> nat"

definition tf_pad_time :: "int \<Rightarrow> shape \<Rightarrow> error + shape" where
  "tf_pad_time p x =
     (case x of (b, t, c) \<Rightarrow>
        if p < 0 then Inl ShapeError else Inr (b, nat p + t + nat p, c))"

definition tf_conv1d_valid :: "nat \<times> nat \<times> nat \<Rightarrow> int \<Rightarrow> shape \<Rightarrow> error + shape" where
  "tf_conv1d_valid f stride x =
     (case f of (width, c_in, c_out) \<Rightarrow>
      case x of (b, t, c) \<Rightarrow>
        if c \<noteq> c_in \<or> stride \<le> 0 then Inl ShapeError
        else
          let n = int t - int width + stride;
              out = (if 0 \<le> n then n div stride else - ((- n) div stride))
          in if out < 0 then Inl ShapeError else Inr (b, nat out, c_out))"

definition tf_conv1d_transpose :: "nat \<times> nat \<times> nat \<Rightarrow> int \<times> int \<times> int \<Rightarrow> int \<Rightarrow> shape \<Rightarrow> error + shape" where
  "tf_conv1d_transpose f output_shape stride x =
     (case f of (width, c_out, c_in) \<Rightarrow>
      case output_shape of (ob, ot, oc) \<Rightarrow>
      case x of (b, t, c) \<Rightarrow>
        if c \<noteq> c_in \<or> stride \<le> 0 \<or> ob \<noteq> int b \<or> ot < 0 \<or> oc \<noteq> int c_out
           \<or> (ot + stride - 1) div stride \<noteq> int t
        then Inl ShapeError
        else Inr (b, nat ot, c_out))"

text \<open>\<^verbatim>\<open>self.updown_filter * self.subbands\<close>: every entry multiplied by the scalar.\<close>

definition np_scale3 :: "npfloat list list list \<Rightarrow> int \<Rightarrow> npfloat list list list" where
  "np_scale3 a m = map (map (map (\<lambda>v. np_mul v (Fin (of_int m))))) a"

text \<open>
  \<open>analysis\<close> accepts a tensor with one channel (its input signature), \<open>synthesis\<close> any
  tensor of rank three.
\<close>

definition analysis :: "pqmf \<Rightarrow> shape \<Rightarrow> error + shape" where
  "analysis self x =
     (case x of (b, t, c) \<Rightarrow>
        if c \<noteq> 1 then Inl ShapeError
        else
          case tf_pad_time (pqmf_taps self div 2) x of
            Inl e \<Rightarrow> Inl e
          | Inr x1 \<Rightarrow>
              (case tf_conv1d_valid (np_shape3 (analysis_filter self)) 1 x1 of
                 Inl e \<Rightarrow> Inl e
               | Inr x2 \<Rightarrow>
                   tf_conv1d_valid (np_shape3 (updown_filter self)) (pqmf_subbands self) x2))"

definition synthesis :: "pqmf \<Rightarrow> shape \<Rightarrow> error + shape" where
  "synthesis self x =
     (case x of (b, t, c) \<Rightarrow>
        case tf_conv1d_transpose
               (np_shape3 (np_scale3 (updown_filter self) (pqmf_subbands self)))
               (int b, int t * pqmf_subbands self, pqmf_subbands self)
               (pqmf_subbands self) x of
          Inl e \<Rightarrow> Inl e
        | Inr x1 \<Rightarrow>
            (case tf_pad_time (pqmf_taps self div 2) x1 of
               Inl e \<Rightarrow> Inl e
             | Inr x2 \<Rightarrow> tf_conv1d_valid (np_shape3 (synthesis_filter self)) 1 x2))"

subsection \<open>The generator\<close>

text \<open>
  The layers of the sequential network, by the arguments the source passes to them:
  \<open>TFReflectionPad1d padding_size\<close>, \<open>Conv1D filters kernel_size\<close>,
  \<open>Activation name\<close>, \<open>TFConvTranspose1d filters kernel_size strides\<close> and
  \<open>TFResidualStack kernel_size filters dilation_rate\<close>.
\<close>

datatype layer =
    TFReflectionPad1d int
  | Conv1D int int
  | Activation string
  | TFConvTranspose1d int int int
  | TFResidualStack int int int

text \<open>
  The body of the loop \<^verbatim>\<open>for i, upsample_scale in enumerate(config.upsample_scales)\<close>, as a
  recursion over the remaining scales with the running index \<open>i\<close>.
\<close>

fun upsample_layers :: "config \<Rightarrow> nat \<Rightarrow> int list \<Rightarrow> layer list" where
  "upsample_layers cfg i [] = []"
| "upsample_layers cfg i (upsample_scale # rest) =
     [Activation (cfg_nonlinear_activation cfg),
      TFConvTranspose1d (cfg_filters cfg div 2 ^ (i + 1)) (upsample_scale * 2) upsample_scale]
     @ map (\<lambda>j. TFResidualStack (cfg_stack_kernel_size cfg)
                   (cfg_filters cfg div 2 ^ (i + 1))
                   (cfg_stack_kernel_size cfg ^ j))
         [0..<nat (cfg_stacks cfg)]
     @ upsample_layers cfg (i + 1) rest"

definition melgan_layers :: "config \<Rightarrow> layer list" where
  "melgan_layers cfg =
     [TFReflectionPad1d ((cfg_kernel_size cfg - 1) div 2),
      Conv1D (cfg_filters cfg) (cfg_kernel_size cfg)]
     @ upsample_layers cfg 0 (cfg_upsample_scales cfg)
     @ [Activation (cfg_nonlinear_activation cfg),
        TFReflectionPad1d ((cfg_kernel_size cfg - 1) div 2),
        Conv1D (cfg_out_channels cfg) (cfg_kernel_size cfg)]
     @ (if cfg_use_final_nolinear_activation cfg then [Activation ''tanh''] else [])"

record generator =
  melgan :: "layer list"
  pqmf :: pqmf

text \<open>
  \<^verbatim>\<open>np.prod\<close> of a list of Python integers. NumPy stores integers that fit in 64 bits as
  signed 64-bit integers and multiplies them in wrapping (modular) arithmetic, so the
  result is the product reduced into the range \<open>-2^63 \<dots> 2^63 - 1\<close>; the product of no
  numbers is 1. An entry outside that range makes NumPy choose another element type
  (unsigned, floating-point or Python objects); such lists are outside this model.
\<close>

definition fits_int64 :: "int \<Rightarrow> bool" where
  "fits_int64 z = (- (2 ^ 63) \<le> z \<and> z < 2 ^ 63)"

definition int64_wrap :: "int \<Rightarrow> int" where
  "int64_wrap z = (z + 2 ^ 63) mod 2 ^ 64 - 2 ^ 63"

definition np_prod :: "int list \<Rightarrow> int" where
  "np_prod xs = int64_wrap (prod_list xs)"

definition MBMelGANGenerator_init :: "config \<Rightarrow> error + generator" where
  "MBMelGANGenerator_init cfg =
     (if \<not> list_all fits_int64 (cfg_upsample_scales cfg) then Inl NotInt64
      else if \<not> (cfg_filters cfg \<ge> np_prod (cfg_upsample_scales cfg))
        then Inl (AssertionError [])
      else if cfg_filters cfg mod (2 ^ length (cfg_upsample_scales cfg)) \<noteq> 0
        then Inl (AssertionError [])
      else
        case TFPQMF_init cfg of
          Inl e \<Rightarrow> Inl e
        | Inr p \<Rightarrow> Inr \<lparr> melgan = melgan_layers cfg, pqmf = p \<rparr>)"

text \<open>
  Modelled from the spec: the effect of each layer on the shape \<open>(batch, time, channels)\<close>.
  The layer classes (\<^verbatim>\<open>tensorflow_tts.modules\<close> and Keras) are not among the sources. By
  the specification, the reflection padding adds its size on each side of the time axis,
  a convolution maps to \<open>filters\<close> channels (with no padding of its own, so it shortens
  the time axis by \<open>kernel_size - 1\<close>), an activation keeps the shape, the transposed
  convolution multiplies the time length by its stride and maps to \<open>filters\<close> channels,
  and a residual stack preserves channel count and time length.
\<close>

fun layer_shape :: "layer \<Rightarrow> shape \<Rightarrow> error + shape" where
  "layer_shape (TFReflectionPad1d p) (b, t, c) =
     (if p < 0 then Inl ShapeError else Inr (b, nat p + t + nat p, c))"
| "layer_shape (Conv1D filters kernel_size) (b, t, c) =
     (if kernel_size \<le> 0 \<or> int t + 1 < kernel_size then Inl ShapeError
      else Inr (b, nat (int t + 1 - kernel_size), nat filters))"
| "layer_shape (Activation name) x = Inr x"
| "layer_shape (TFConvTranspose1d filters kernel_size strides) (b, t, c) =
     (if strides \<le> 0 then Inl ShapeError else Inr (b, t * nat strides, nat filters))"
| "layer_shape (TFResidualStack kernel_size filters dilation_rate) x = Inr x"

text \<open>\<^verbatim>\<open>tf.keras.models.Sequential\<close>: the layers applied in order.\<close>

fun sequential :: "layer list \<Rightarrow> shape \<Rightarrow> error + shape" where
  "sequential [] x = Inr x"
| "sequential (l # ls) x =
     (case layer_shape l x of Inl e \<Rightarrow> Inl e | Inr y \<Rightarrow> sequential ls y)"

text \<open>\<open>inference\<close> accepts mel-spectrograms with 80 channels (its input signature).\<close>

definition inference :: "generator \<Rightarrow> shape \<Rightarrow> error + shape" where
  "inference self mels =
     (case mels of (b, t, c) \<Rightarrow>
        if c \<noteq> 80 then Inl ShapeError
        else
          case sequential (melgan self) mels of
            Inl e \<Rightarrow> Inl e
          | Inr mb_audios \<Rightarrow> synthesis (pqmf self) mb_audios)"

subsection \<open>A configuration for the examples\<close>

text \<open>
  The filterbank parameters (\<open>subbands = 4\<close>, \<open>taps = 62\<close>, \<open>cutoff_ratio = 0.15\<close>,
  \<open>beta = 9.0\<close>) and the upsampling scales (\<open>[8, 8, 4]\<close>) named in the specification's
  examples, completed by values for the remaining fields.
\<close>

definition example_config :: config where
  "example_config =
     \<lparr> cfg_filters = 384,
       cfg_kernel_size = 7,
       cfg_upsample_scales = [8, 8, 4],
       cfg_stacks = 4,
       cfg_stack_kernel_size = 3,
       cfg_nonlinear_activation = ''LeakyReLU'',
       cfg_out_channels = 4,
       cfg_use_final_nolinear_activation = True,
       cfg_subbands = 4,
       cfg_taps = 62,
       cfg_cutoff_ratio = 0.15,
       cfg_beta = 9 \<rparr>"

section \<open>Properties of the prototype filter\<close>

lemma i0_summable: "summable (\<lambda>k. ((x / 2) ^ k / fact k) ^ 2 :: real)"
proof (rule summable_comparison_test)
  show "summable (\<lambda>k. inverse (fact k) * ((x/2)^2) ^ k :: real)" by (rule summable_exp)
  show "\<exists>N. \<forall>n\<ge>N. norm (((x / 2) ^ n / fact n)\<^sup>2) \<le> inverse (fact n) * ((x/2)^2) ^ n"
  proof (intro exI[of _ 0] allI impI)
    fix n :: nat
    have f1: "(1::real) \<le> fact n" by (simp add: fact_ge_1)
    have "((x / 2) ^ n)\<^sup>2 = ((x/2)^2)^n"
      by (metis power_mult mult.commute)
    hence "((x / 2) ^ n / fact n)\<^sup>2 = ((x/2)^2)^n / (fact n * fact n)"
      by (simp only: power_divide) (simp only: power2_eq_square)
    also have "\<dots> \<le> ((x/2)^2)^n / fact n"
      using f1 by (intro divide_left_mono) (auto simp: mult_ge1_I)
    finally show "norm (((x / 2) ^ n / fact n)\<^sup>2) \<le> inverse (fact n) * ((x/2)^2) ^ n"
      by (simp add: field_simps)
  qed
qed

lemma i0_ge_1: "1 \<le> bessel_i0 x"
proof -
  have "(\<Sum>k<1. ((x / 2) ^ k / fact k) ^ 2) \<le> (\<Sum>k. ((x / 2) ^ k / fact k) ^ 2)"
    by (rule sum_le_suminf[OF i0_summable]) auto
  thus ?thesis by (simp add: bessel_i0_def)
qed

lemma i0_nonzero: "bessel_i0 x \<noteq> 0"
  using i0_ge_1[of x] by simp

lemma length_arange: "length (arange m) = nat m"
  by (simp add: arange_def)

lemma nth_arange: "k < nat m \<Longrightarrow> arange m ! k = int k"
  by (simp add: arange_def)

lemma np_i0_in_range:
  assumes "exp \<bar>beta\<bar> \<le> max_float64" "\<bar>x\<bar> \<le> \<bar>beta\<bar>"
  shows "np_i0 x = Fin (bessel_i0 x)"
proof -
  have "exp \<bar>x\<bar> \<le> exp \<bar>beta\<bar>" using assms(2) by simp
  hence "\<not> max_float64 < exp \<bar>x\<bar>" using assms(1) by linarith
  thus ?thesis by (simp add: np_i0_def)
qed

lemma np_i0_overflow: "max_float64 < exp \<bar>x\<bar> \<Longrightarrow> np_i0 x = PInf"
  by (simp add: np_i0_def)

lemma kaiser_entries:
  assumes "2 \<le> taps"
  shows "kaiser (taps + 1) beta =
           Inr (map (\<lambda>n. np_div
                      (np_i0 (beta * sqrt (1 - ((of_int n - of_int taps / 2) / (of_int taps / 2)) ^ 2)))
                      (np_i0 beta))
                  (arange (taps + 1)))"
  using assms by (simp add: kaiser_def Let_def)

lemma kaiser_props:
  assumes "0 \<le> taps" "even taps"
  obtains w where "kaiser (taps + 1) beta = Inr w" "length w = nat (taps + 1)"
    "\<And>k. exp \<bar>beta\<bar> \<le> max_float64 \<Longrightarrow> k < nat (taps + 1) \<Longrightarrow> is_finite (w ! k)"
    "exp \<bar>beta\<bar> \<le> max_float64 \<Longrightarrow> w ! nat (taps div 2) = Fin 1"
    "\<And>k. k \<le> nat taps \<Longrightarrow> w ! (nat taps - k) = w ! k"
proof (cases "taps = 0")
  case True
  show ?thesis
    by (rule that[of "[Fin 1]"]) (simp_all add: kaiser_def True)
next
  case False
  with assms have pos: "2 \<le> taps" by presburger
  define alpha :: real where "alpha = of_int taps / 2"
  define f where "f = (\<lambda>n::int. np_div
                     (np_i0 (beta * sqrt (1 - ((of_int n - alpha) / alpha) ^ 2)))
                     (np_i0 beta))"
  have alpha0: "0 < alpha" using pos by (simp add: alpha_def)
  have k: "kaiser (taps + 1) beta = Inr (map f (arange (taps + 1)))"
    unfolding f_def alpha_def by (rule kaiser_entries[OF pos])
  have nth: "map f (arange (taps + 1)) ! k = f (int k)" if "k < nat (taps + 1)" for k
    using that by (simp add: length_arange nth_arange)
  have fin: "\<exists>r. f (int k) = Fin r" if ok: "exp \<bar>beta\<bar> \<le> max_float64" and kb: "k < nat (taps + 1)" for k
  proof -
    let ?r = "(real_of_int (int k) - alpha) / alpha"
    have "int k \<le> taps" using kb by linarith
    hence "real_of_int (int k) \<le> real_of_int taps" by (simp only: of_int_le_iff)
    moreover have "0 \<le> real_of_int (int k)" by simp
    ultimately have "\<bar>real_of_int (int k) - alpha\<bar> \<le> alpha"
      unfolding alpha_def by linarith
    hence "\<bar>?r\<bar> \<le> 1" using alpha0 by (simp add: abs_divide)
    hence r2: "?r ^ 2 \<le> 1" by (simp add: abs_square_le_1)
    hence s1: "0 \<le> sqrt (1 - ?r ^ 2)" by simp
    have "1 - ?r ^ 2 \<le> 1" by simp
    hence s2: "sqrt (1 - ?r ^ 2) \<le> 1" using real_sqrt_le_1_iff by blast
    have "\<bar>beta * sqrt (1 - ?r ^ 2)\<bar> = \<bar>beta\<bar> * sqrt (1 - ?r ^ 2)"
      using s1 by (simp add: abs_mult)
    also have "\<dots> \<le> \<bar>beta\<bar> * 1" using s2 by (intro mult_left_mono) simp_all
    finally have "\<bar>beta * sqrt (1 - ?r ^ 2)\<bar> \<le> \<bar>beta\<bar>" by simp
    hence "np_i0 (beta * sqrt (1 - ?r ^ 2)) = Fin (bessel_i0 (beta * sqrt (1 - ?r ^ 2)))"
      by (rule np_i0_in_range[OF ok])
    moreover have "np_i0 beta = Fin (bessel_i0 beta)"
      by (rule np_i0_in_range[OF ok]) simp
    ultimately show ?thesis by (simp add: f_def i0_nonzero)
  qed
  show ?thesis
  proof (rule that[OF k])
    show "length (map f (arange (taps + 1))) = nat (taps + 1)" by (simp add: length_arange)
    show "is_finite (map f (arange (taps + 1)) ! k)"
      if "exp \<bar>beta\<bar> \<le> max_float64" "k < nat (taps + 1)" for k
      using nth[OF that(2)] fin[OF that] by auto
    have c: "nat (taps div 2) < nat (taps + 1)" using pos by linarith
    have "real_of_int (int (nat (taps div 2))) = alpha"
      using assms by (auto simp: alpha_def elim!: evenE)
    hence "f (int (nat (taps div 2))) = np_div (np_i0 beta) (np_i0 beta)"
      by (simp add: f_def)
    moreover have "np_i0 beta = Fin (bessel_i0 beta)" if "exp \<bar>beta\<bar> \<le> max_float64"
      by (rule np_i0_in_range[OF that]) simp
    ultimately show "map f (arange (taps + 1)) ! nat (taps div 2) = Fin 1"
      if "exp \<bar>beta\<bar> \<le> max_float64"
      using nth[OF c] that by (simp add: i0_nonzero)
    show "map f (arange (taps + 1)) ! (nat taps - k) = map f (arange (taps + 1)) ! k"
      if "k \<le> nat taps" for k
    proof -
      have a: "k < nat (taps + 1)" "nat taps - k < nat (taps + 1)" using that pos by linarith+
      have "real_of_int (int (nat taps - k)) - alpha = - (real_of_int (int k) - alpha)"
        using that pos by (simp add: alpha_def of_nat_diff)
      hence "(real_of_int (int (nat taps - k)) - alpha) / alpha
             = - ((real_of_int (int k) - alpha) / alpha)"
        by (simp only: minus_divide_left)
      hence "((real_of_int (int (nat taps - k)) - alpha) / alpha) ^ 2
             = ((real_of_int (int k) - alpha) / alpha) ^ 2"
        by (simp only: power2_minus)
      thus ?thesis using nth[OF a(1)] nth[OF a(2)] by (simp add: f_def)
    qed
  qed
qed

lemma exp_9_in_range: "exp \<bar>9 :: real\<bar> \<le> max_float64"
proof -
  have "exp (9 :: real) = exp (of_nat 9 * 1)" by simp
  also have "\<dots> = exp 1 ^ 9" by (rule exp_of_nat_mult)
  also have "\<dots> \<le> (3 :: real) ^ 9" by (intro power_mono exp_le) simp
  also have "(3 :: real) ^ 9 \<le> 2 ^ 1023" 
  proof -
    have "(3 :: real) ^ 9 \<le> 2 ^ 15" by simp
    also have "(2::real) ^ 15 \<le> 2 ^ 1023" by (rule power_increasing) simp_all
    finally show ?thesis .
  qed
  also have "(2::real) ^ 1023 \<le> max_float64"
  proof -
    have "(2::real) ^ 971 \<le> 2 ^ 1023" by (rule power_increasing) simp_all
    moreover have "(2::real) ^ 1024 = 2 * 2 ^ 1023" by (simp only: power_Suc[symmetric]) simp
    ultimately show ?thesis unfolding max_float64_def by linarith
  qed
  finally show ?thesis by simp
qed

lemma exp_1000_overflow: "max_float64 < exp \<bar>1000 :: real\<bar>"
proof -
  have "(5 / 2 :: real) \<le> exp 1" using exp_lower_Taylor_quadratic[of "1 :: real"] by simp
  hence "(5 / 2 :: real) ^ 1000 \<le> exp 1 ^ 1000" by (intro power_mono) simp_all
  also have "exp 1 ^ 1000 = exp (of_nat 1000 * (1 :: real))" by (rule exp_of_nat_mult[symmetric])
  finally have a: "(5 / 2 :: real) ^ 1000 \<le> exp 1000" by simp
  have "(2 :: real) ^ 5 \<le> (5 / 2) ^ 4" by (simp add: power_divide)
  hence "((2 :: real) ^ 5) ^ 250 \<le> ((5 / 2) ^ 4) ^ 250" by (intro power_mono) simp_all
  hence b: "(2 :: real) ^ 1250 \<le> (5 / 2) ^ 1000" by (simp only: power_mult[symmetric]) simp
  have c: "(2 :: real) ^ 1024 \<le> 2 ^ 1250" by (rule power_increasing) simp_all
  have "(0 :: real) < 2 ^ 971" by simp
  hence d: "max_float64 < 2 ^ 1024" unfolding max_float64_def by linarith
  from a b c d show ?thesis by simp
qed

lemma setitem_center:
  assumes "even taps" "0 \<le> taps"
  shows "np_setitem
           (map (\<lambda>n. np_div (Fin (sin (pi * c * (of_int n - 0.5 * of_int taps))))
                              (Fin (pi * (of_int n - 0.5 * of_int taps))))
              (arange (taps + 1)))
           (taps div 2) (Fin (cos 0 * c))
         = Inr (spec_ideal_lowpass taps c)"
proof -
  let ?g = "\<lambda>n::int. np_div (Fin (sin (pi * c * (of_int n - 0.5 * of_int taps))))
                              (Fin (pi * (of_int n - 0.5 * of_int taps)))"
  have idx: "0 \<le> taps div 2" "taps div 2 < taps + 1" using assms by auto
  have "(map ?g (arange (taps + 1)))[nat (taps div 2) := Fin c] = spec_ideal_lowpass taps c"
  proof (rule nth_equalityI)
    show "length ((map ?g (arange (taps + 1)))[nat (taps div 2) := Fin c])
          = length (spec_ideal_lowpass taps c)"
      by (simp add: length_arange spec_ideal_lowpass_def)
  next
    fix k assume "k < length ((map ?g (arange (taps + 1)))[nat (taps div 2) := Fin c])"
    hence k: "k < nat (taps + 1)" by (simp add: length_arange)
    hence k': "int k \<le> taps" by linarith
    show "(map ?g (arange (taps + 1)))[nat (taps div 2) := Fin c] ! k
          = spec_ideal_lowpass taps c ! k"
    proof (cases "k = nat (taps div 2)")
      case True
      thus ?thesis using k idx by (simp add: length_arange spec_ideal_lowpass_def)
    next
      case False
      hence ne: "int k \<noteq> taps div 2" using idx by linarith
      hence "2 * int k \<noteq> taps" using assms by auto
      hence "2 * real_of_int (int k) \<noteq> real_of_int taps"
        by (metis of_int_eq_iff of_int_mult of_int_numeral)
      hence d: "real_of_int (int k) - 0.5 * real_of_int taps \<noteq> 0" by simp
      have "(map ?g (arange (taps + 1)))[nat (taps div 2) := Fin c] ! k = ?g (int k)"
        using False k by (simp add: length_arange nth_arange)
      also have "\<dots> = Fin (sin (pi * c * (of_int (int k) - of_int taps / 2))
                          / (pi * (of_int (int k) - of_int taps / 2)))"
        using d by simp
      also have "\<dots> = spec_ideal_lowpass taps c ! k"
        using k k' ne by (simp add: spec_ideal_lowpass_def)
      finally show ?thesis .
    qed
  qed
  thus ?thesis using idx by (simp add: np_setitem_def length_arange Let_def)
qed

lemma dpf_unfold:
  assumes "even taps" "0 \<le> taps" "0 < c" "c < 1" "kaiser (taps + 1) beta = Inr w"
  shows "design_prototype_filter taps c beta = Inr (map2 np_mul (spec_ideal_lowpass taps c) w)"
proof -
  have "taps mod 2 = 0" using assms(1) by presburger
  thus ?thesis
    using assms(3,4,5) setitem_center[OF assms(1,2), of c]
    by (simp add: design_prototype_filter_def Let_def)
qed

lemma length_spec_ideal_lowpass: "length (spec_ideal_lowpass taps c) = nat (taps + 1)"
  by (simp add: spec_ideal_lowpass_def)

lemma nth_spec_ideal_lowpass:
  "k < nat (taps + 1) \<Longrightarrow> spec_ideal_lowpass taps c ! k =
     (if int k = taps div 2 then Fin c
      else Fin (sin (pi * c * (of_int (int k) - of_int taps / 2))
                 / (pi * (of_int (int k) - of_int taps / 2))))"
  by (simp add: spec_ideal_lowpass_def)


lemma kaiser_window:
  assumes "0 \<le> taps" "even taps"
  shows "\<exists>w. kaiser (taps + 1) beta = Inr w \<and> length w = nat (taps + 1) \<and>
     (exp \<bar>beta\<bar> \<le> max_float64 \<longrightarrow>
        (\<forall>k < nat (taps + 1). is_finite (w ! k)) \<and> w ! nat (taps div 2) = Fin 1) \<and>
     (\<forall>k \<le> nat taps. w ! (nat taps - k) = w ! k)"
  by (rule kaiser_props[OF assms, of beta]) blast

text \<open>
  Claim C1 (as amended: the centre value needs a shape parameter whose Bessel function
  does not overflow). For every even \<open>taps \<ge> 0\<close>, every \<open>0 < cutoff_ratio < 1\<close> and every
  \<open>beta\<close>, \<open>design_prototype_filter\<close> returns the ideal low-pass samples
  \<open>sin (\<pi> cutoff_ratio (n - taps/2)) / (\<pi> (n - taps/2))\<close>, \<open>n = 0..taps\<close>, with the sample
  at the singular index \<open>taps/2\<close> equal to \<open>cutoff_ratio\<close>, multiplied elementwise by the
  Kaiser window of length \<open>taps + 1\<close> and shape \<open>beta\<close>. When \<open>exp \<bar>beta\<bar>\<close> is within the range
  of double precision, the window is 1 at its centre and the returned centre coefficient
  is \<open>cutoff_ratio\<close>.
\<close>

theorem design_prototype_filter_windowed_sinc:
  assumes "even taps" "0 \<le> taps" "0 < cutoff_ratio" "cutoff_ratio < 1"
  shows "\<exists>w. kaiser (taps + 1) beta = Inr w \<and> length w = nat (taps + 1) \<and>
           design_prototype_filter taps cutoff_ratio beta
             = Inr (map2 np_mul (spec_ideal_lowpass taps cutoff_ratio) w) \<and>
           (exp \<bar>beta\<bar> \<le> max_float64 \<longrightarrow>
              w ! nat (taps div 2) = Fin 1 \<and>
              map2 np_mul (spec_ideal_lowpass taps cutoff_ratio) w ! nat (taps div 2)
                = Fin cutoff_ratio)"
proof -
  obtain w where w0: "kaiser (taps + 1) beta = Inr w \<and> length w = nat (taps + 1) \<and>
     (exp \<bar>beta\<bar> \<le> max_float64 \<longrightarrow>
        (\<forall>k < nat (taps + 1). is_finite (w ! k)) \<and> w ! nat (taps div 2) = Fin 1) \<and>
     (\<forall>k \<le> nat taps. w ! (nat taps - k) = w ! k)"
    using kaiser_window[OF assms(2,1), of beta] by (rule exE)
  have w: "kaiser (taps + 1) beta = Inr w" "length w = nat (taps + 1)"
    "\<And>k. exp \<bar>beta\<bar> \<le> max_float64 \<Longrightarrow> k < nat (taps + 1) \<Longrightarrow> is_finite (w ! k)"
    "exp \<bar>beta\<bar> \<le> max_float64 \<Longrightarrow> w ! nat (taps div 2) = Fin 1"
    "\<And>k. k \<le> nat taps \<Longrightarrow> w ! (nat taps - k) = w ! k"
    using w0 by simp_all
  have c: "nat (taps div 2) < nat (taps + 1)" using assms(2) by linarith
  have m: "map2 np_mul (spec_ideal_lowpass taps cutoff_ratio) w ! nat (taps div 2)
        = np_mul (spec_ideal_lowpass taps cutoff_ratio ! nat (taps div 2)) (w ! nat (taps div 2))"
    using c w(2) by (simp add: length_spec_ideal_lowpass)
  have "map2 np_mul (spec_ideal_lowpass taps cutoff_ratio) w ! nat (taps div 2)
        = Fin cutoff_ratio" if "exp \<bar>beta\<bar> \<le> max_float64"
    unfolding m using c assms(2) by (simp add: nth_spec_ideal_lowpass w(4)[OF that])
  thus ?thesis
    using w(1,2,4) dpf_unfold[OF assms w(1)] by blast
qed

lemma sinc_odd_quotient: "sin (a * (- y)) / (b * (- y)) = sin (a * y) / (b * y :: real)"
  by simp

lemma spec_ideal_lowpass_sym:
  assumes "even taps" "k \<le> nat taps" "0 \<le> taps"
  shows "spec_ideal_lowpass taps c ! (nat taps - k) = spec_ideal_lowpass taps c ! k"
proof -
  have b: "k < nat (taps + 1)" "nat taps - k < nat (taps + 1)" using assms(2,3) by linarith+
  have i: "int (nat taps - k) = taps - int k" using assms(2,3) by linarith
  have e: "(taps - int k = taps div 2) = (int k = taps div 2)" using assms(1) by auto
  have x: "real_of_int (taps - int k) - real_of_int taps / 2
           = - (real_of_int (int k) - real_of_int taps / 2)" by simp
  have "sin (pi * c * (real_of_int (taps - int k) - real_of_int taps / 2))
          / (pi * (real_of_int (taps - int k) - real_of_int taps / 2))
        = sin (pi * c * (real_of_int (int k) - real_of_int taps / 2))
          / (pi * (real_of_int (int k) - real_of_int taps / 2))"
    unfolding x by (rule sinc_odd_quotient)
  thus ?thesis
    by (simp only: nth_spec_ideal_lowpass[OF b(1)] nth_spec_ideal_lowpass[OF b(2)] i e)
qed



text \<open>
  With a shape parameter beyond the range of the Bessel function, the centre of the
  window is \<open>inf / inf = nan\<close>, and so is the centre coefficient of the filter.
\<close>

lemma dpf_centre_overflow:
  assumes "even taps" "2 \<le> taps" "0 < c" "c < 1" "max_float64 < exp \<bar>beta\<bar>"
  shows "\<exists>h. design_prototype_filter taps c beta = Inr h \<and> h ! nat (taps div 2) = NaN"
proof -
  let ?f = "\<lambda>n::int. np_div
              (np_i0 (beta * sqrt (1 - ((of_int n - of_int taps / 2) / (of_int taps / 2)) ^ 2)))
              (np_i0 beta)"
  let ?w = "map ?f (arange (taps + 1))"
  let ?s = "spec_ideal_lowpass taps c"
  have k: "kaiser (taps + 1) beta = Inr ?w" by (rule kaiser_entries[OF assms(2)])
  have t0: "0 \<le> taps" using assms(2) by simp
  have cidx: "nat (taps div 2) < nat (taps + 1)" using assms(2) by linarith
  have "real_of_int (int (nat (taps div 2))) = real_of_int taps / 2"
    using assms(1,2) by (auto elim!: evenE)
  hence "?f (int (nat (taps div 2))) = np_div (np_i0 beta) (np_i0 beta)" by simp
  also have "\<dots> = NaN" by (simp add: np_i0_overflow[OF assms(5)])
  finally have wc: "?w ! nat (taps div 2) = NaN"
    using cidx by (simp add: length_arange nth_arange)
  have "map2 np_mul ?s ?w ! nat (taps div 2)
        = np_mul (?s ! nat (taps div 2)) (?w ! nat (taps div 2))"
    using cidx by (simp add: length_spec_ideal_lowpass length_arange)
  also have "\<dots> = NaN"
    unfolding wc using cidx t0 by (simp add: nth_spec_ideal_lowpass)
  finally show ?thesis
    using dpf_unfold[OF assms(1) t0 assms(3,4) k] by blast
qed


text \<open>
  Claim C8 (as amended: success needs a number of taps that is not negative). The
  specification's \<open>InvalidArgument\<close> is the \<open>AssertionError\<close> of the two argument checks:
  an odd \<open>taps\<close> fails the first, a \<open>cutoff_ratio \<le> 0\<close> or \<open>\<ge> 1\<close> fails the second, and
  for every even \<open>taps \<ge> 0\<close> and \<open>0 < cutoff_ratio < 1\<close> the function returns a filter.
\<close>

theorem design_prototype_filter_argument_check:
  "(odd taps \<longrightarrow> design_prototype_filter taps cutoff_ratio beta
        = Inl (AssertionError ''The number of taps mush be even number.'')) \<and>
   (even taps \<and> (cutoff_ratio \<le> 0 \<or> 1 \<le> cutoff_ratio) \<longrightarrow>
      design_prototype_filter taps cutoff_ratio beta
        = Inl (AssertionError ''Cutoff ratio must be > 0.0 and < 1.0.'')) \<and>
   (even taps \<and> 0 \<le> taps \<and> 0 < cutoff_ratio \<and> cutoff_ratio < 1 \<longrightarrow>
      (\<exists>h. design_prototype_filter taps cutoff_ratio beta = Inr h))"
proof (intro conjI impI)
  assume "odd taps"
  hence "taps mod 2 \<noteq> 0" by presburger
  thus "design_prototype_filter taps cutoff_ratio beta
        = Inl (AssertionError ''The number of taps mush be even number.'')"
    by (simp add: design_prototype_filter_def)
next
  assume a: "even taps \<and> (cutoff_ratio \<le> 0 \<or> 1 \<le> cutoff_ratio)"
  hence "taps mod 2 = 0" by presburger
  thus "design_prototype_filter taps cutoff_ratio beta
        = Inl (AssertionError ''Cutoff ratio must be > 0.0 and < 1.0.'')"
    using a by (auto simp add: design_prototype_filter_def)
next
  assume a: "even taps \<and> 0 \<le> taps \<and> 0 < cutoff_ratio \<and> cutoff_ratio < 1"
  hence e: "even taps" and t: "0 \<le> taps" by simp_all
  obtain w where "kaiser (taps + 1) beta = Inr w"
    using kaiser_window[OF t e, of beta] by blast
  thus "\<exists>h. design_prototype_filter taps cutoff_ratio beta = Inr h"
    using dpf_unfold[of taps cutoff_ratio beta w] a by blast
qed

text \<open>The statement of C1 at the default design \<open>taps = 62\<close>, \<open>cutoff_ratio = 0.15\<close>, \<open>beta = 9\<close>.\<close>

theorem design_prototype_filter_windowed_sinc_witness:
  "\<exists>w. kaiser 63 9 = Inr w \<and> length w = 63 \<and> w ! 31 = Fin 1 \<and>
       design_prototype_filter 62 0.15 9 = Inr (map2 np_mul (spec_ideal_lowpass 62 0.15) w) \<and>
       map2 np_mul (spec_ideal_lowpass 62 0.15) w ! 31 = Fin 0.15"
proof -
  obtain w where w: "kaiser (62 + 1) 9 = Inr w" "length w = nat (62 + 1)"
    "design_prototype_filter 62 0.15 9 = Inr (map2 np_mul (spec_ideal_lowpass 62 0.15) w)"
    "exp \<bar>9 :: real\<bar> \<le> max_float64 \<longrightarrow>
       w ! nat (62 div 2) = Fin 1 \<and>
       map2 np_mul (spec_ideal_lowpass 62 0.15) w ! nat (62 div 2) = Fin 0.15"
    using design_prototype_filter_windowed_sinc[of 62 "0.15" 9] by auto
  from w(4) exp_9_in_range have "w ! nat (62 div 2) = Fin 1"
    "map2 np_mul (spec_ideal_lowpass 62 0.15) w ! nat (62 div 2) = Fin 0.15" by blast+
  with w(1,2,3) show ?thesis by (intro exI[of _ w]) simp
qed

text \<open>
  C1 as stated ranges over every shape parameter: at \<open>beta = 1000\<close> the Bessel function
  overflows, the window is \<open>nan\<close> at its centre, and the centre coefficient of the
  returned filter is \<open>nan\<close>, not \<open>cutoff_ratio\<close>.
\<close>

theorem design_prototype_filter_centre_nan_counterexample:
  "\<not> isl (design_prototype_filter 62 0.15 1000) \<and>
   projr (design_prototype_filter 62 0.15 1000) ! 31 = NaN \<and>
   NaN \<noteq> Fin 0.15"
proof -
  have "\<exists>h. design_prototype_filter 62 0.15 1000 = Inr h \<and> h ! nat (62 div 2) = NaN"
    by (rule dpf_centre_overflow[OF _ _ _ _ exp_1000_overflow]) simp_all
  then obtain h where h: "design_prototype_filter 62 0.15 1000 = Inr h"
    "h ! nat (62 div 2) = NaN" by blast
  have "nat (62 div 2) = 31" by simp
  with h show ?thesis by simp
qed



text \<open>The three cases of C8 at concrete arguments.\<close>

theorem design_prototype_filter_argument_check_witness:
  "design_prototype_filter 61 0.15 9
     = Inl (AssertionError ''The number of taps mush be even number.'') \<and>
   design_prototype_filter 62 1 9
     = Inl (AssertionError ''Cutoff ratio must be > 0.0 and < 1.0.'') \<and>
   (\<exists>h. design_prototype_filter 62 0.15 9 = Inr h)"
  using design_prototype_filter_argument_check[of 61 "0.15" 9]
    design_prototype_filter_argument_check[of 62 1 9]
    design_prototype_filter_argument_check[of 62 "0.15" 9]
  by simp

text \<open>
  C8 as stated promises success for every even \<open>taps\<close> with a valid cut-off ratio: the
  even number \<open>-62\<close> passes both argument checks and then fails with \<open>IndexError\<close>.
\<close>

theorem design_prototype_filter_index_error_counterexample:
  "(- 62 :: int) mod 2 = 0 \<and> (0 :: real) < 0.15 \<and> (0.15 :: real) < 1 \<and>
   design_prototype_filter (- 62) 0.15 9 = Inl IndexError"
  by (simp add: design_prototype_filter_def arange_def np_setitem_def)

section \<open>Properties of the filterbank\<close>

lemma foldl_assign_rows_aux:
  "m \<le> length xs \<Longrightarrow>
   foldl (\<lambda>h k. h[k := f k]) xs [0..<m] = map f [0..<m] @ drop m xs"
proof (induction m)
  case 0
  show ?case by simp
next
  case (Suc m)
  hence m: "m < length xs" by simp
  have "foldl (\<lambda>h k. h[k := f k]) xs [0..<Suc m]
        = (map f [0..<m] @ drop m xs)[m := f m]"
    using Suc by simp
  also have "\<dots> = map f [0..<m] @ (drop m xs)[0 := f m]"
    by (simp add: list_update_append)
  also have "(drop m xs)[0 := f m] = f m # drop (Suc m) xs"
    using m by (simp add: Cons_nth_drop_Suc[symmetric])
  finally show ?case by simp
qed

lemma foldl_assign_rows:
  "foldl (\<lambda>h k. h[k := f k]) (replicate n z) [0..<n] = map f [0..<n]"
  using foldl_assign_rows_aux[of n "replicate n z" f] by simp

lemma h_analysis_rows:
  "h_analysis subbands taps h_proto = map (analysis_row subbands taps h_proto) [0..<nat subbands]"
  by (simp add: h_analysis_def np_zeros2_def foldl_assign_rows)

lemma h_synthesis_rows:
  "h_synthesis subbands taps h_proto = map (synthesis_row subbands taps h_proto) [0..<nat subbands]"
  by (simp add: h_synthesis_def np_zeros2_def foldl_assign_rows)

lemma length_analysis_row:
  "length h_proto = nat (taps + 1) \<Longrightarrow> length (analysis_row subbands taps h_proto k) = nat (taps + 1)"
  by (simp add: analysis_row_def length_arange)

lemma length_synthesis_row:
  "length h_proto = nat (taps + 1) \<Longrightarrow> length (synthesis_row subbands taps h_proto k) = nat (taps + 1)"
  by (simp add: synthesis_row_def length_arange)

lemma nth_analysis_row:
  "length h_proto = nat (taps + 1) \<Longrightarrow> n < nat (taps + 1) \<Longrightarrow>
   analysis_row subbands taps h_proto k ! n =
     np_mul (np_mul (Fin 2) (h_proto ! n))
       (Fin (cos ((2 * of_nat k + 1) * (pi / (2 * of_int subbands))
                    * (of_int (int n) - of_int taps / 2)
                  + (- 1) ^ k * pi / 4)))"
  by (simp add: analysis_row_def length_arange nth_arange)

lemma nth_synthesis_row:
  "length h_proto = nat (taps + 1) \<Longrightarrow> n < nat (taps + 1) \<Longrightarrow>
   synthesis_row subbands taps h_proto k ! n =
     np_mul (np_mul (Fin 2) (h_proto ! n))
       (Fin (cos ((2 * of_nat k + 1) * (pi / (2 * of_int subbands))
                    * (of_int (int n) - of_int taps / 2)
                  - (- 1) ^ k * pi / 4)))"
  by (simp add: synthesis_row_def length_arange nth_arange)

lemma nth_transpose_210:
  assumes "np_shape3 a = (d0, d1, d2)" "i < d2" "j < d1" "k < d0"
  shows "np_transpose_210 a ! i ! j ! k = a ! k ! j ! i"
  using assms by (simp add: np_transpose_210_def)

lemma shape_transpose_210:
  assumes "np_shape3 a = (d0, d1, d2)" "0 < d2" "0 < d1"
  shows "np_shape3 (np_transpose_210 a) = (d2, d1, d0)"
proof -
  obtain m where m: "d2 = Suc m" using assms(2) by (cases d2) auto
  obtain l where l: "d1 = Suc l" using assms(3) by (cases d1) auto
  show ?thesis
    using assms(1) unfolding np_transpose_210_def np_shape3_def m l
    by (simp add: upt_rec[of 0])
qed

lemma shape_expand_dims_1:
  "rows \<noteq> [] \<Longrightarrow> np_shape3 (np_expand_dims_1 rows) = (length rows, 1, length (rows ! 0))"
  by (cases rows) (simp_all add: np_shape3_def np_expand_dims_1_def)

lemma shape_expand_dims_0:
  "rows \<noteq> [] \<Longrightarrow> np_shape3 (np_expand_dims_0 rows) = (1, length rows, length (rows ! 0))"
  by (cases rows) (simp_all add: np_shape3_def np_expand_dims_0_def)


lemma dpf_Inr_D:
  assumes "design_prototype_filter taps c beta = Inr h"
  shows "even taps" "0 \<le> taps" "0 < c" "c < 1"
proof -
  show e: "even taps"
    using assms by (auto simp: design_prototype_filter_def split: if_splits)
  show "0 < c" "c < 1"
    using assms by (auto simp: design_prototype_filter_def split: if_splits)
  show "0 \<le> taps"
  proof (rule ccontr)
    assume "\<not> 0 \<le> taps"
    hence "arange (taps + 1) = []" by (simp add: arange_def)
    thus False
      using assms
      by (auto simp: design_prototype_filter_def np_setitem_def Let_def split: if_splits)
  qed
qed

lemma dpf_props:
  assumes "design_prototype_filter taps c beta = Inr h"
  shows "length h = nat (taps + 1)"
    and "\<And>k. k \<le> nat taps \<Longrightarrow> h ! (nat taps - k) = h ! k"
proof -
  note d = dpf_Inr_D[OF assms]
  obtain w where w0: "kaiser (taps + 1) beta = Inr w \<and> length w = nat (taps + 1) \<and>
     (exp \<bar>beta\<bar> \<le> max_float64 \<longrightarrow>
        (\<forall>k < nat (taps + 1). is_finite (w ! k)) \<and> w ! nat (taps div 2) = Fin 1) \<and>
     (\<forall>k \<le> nat taps. w ! (nat taps - k) = w ! k)"
    using kaiser_window[OF d(2,1), of beta] by (rule exE)
  have w: "kaiser (taps + 1) beta = Inr w" "length w = nat (taps + 1)"
    "\<And>k. k \<le> nat taps \<Longrightarrow> w ! (nat taps - k) = w ! k"
    using w0 by simp_all
  let ?s = "spec_ideal_lowpass taps c"
  have h: "h = map2 np_mul ?s w"
    using dpf_unfold[OF d w(1)] assms by simp
  show len: "length h = nat (taps + 1)"
    by (simp add: h w(2) length_spec_ideal_lowpass)
  have nth: "h ! k = np_mul (?s ! k) (w ! k)" if "k < nat (taps + 1)" for k
    using that by (simp add: h w(2) length_spec_ideal_lowpass)
  show "h ! (nat taps - k) = h ! k" if "k \<le> nat taps" for k
  proof -
    have b: "k < nat (taps + 1)" "nat taps - k < nat (taps + 1)"
      using that d(2) by linarith+
    show ?thesis
      by (simp only: nth[OF b(1)] nth[OF b(2)] w(3)[OF that]
            spec_ideal_lowpass_sym[OF d(1) that d(2)])
  qed
qed

lemma TFPQMF_init_Inr_D:
  assumes "TFPQMF_init cfg = Inr p"
  obtains h_proto where
    "design_prototype_filter (cfg_taps cfg) (cfg_cutoff_ratio cfg) (cfg_beta cfg) = Inr h_proto"
    "0 \<le> cfg_subbands cfg"
    "pqmf_subbands p = cfg_subbands cfg"
    "pqmf_taps p = cfg_taps cfg"
    "analysis_filter p = np_transpose_210 (np_expand_dims_1
        (h_analysis (cfg_subbands cfg) (cfg_taps cfg) h_proto))"
    "synthesis_filter p = np_transpose_210 (np_expand_dims_0
        (h_synthesis (cfg_subbands cfg) (cfg_taps cfg) h_proto))"
    "updown_filter p = make_updown_filter (cfg_subbands cfg)"
  using assms
  by (auto simp: TFPQMF_init_def Let_def split: sum.splits if_splits)

lemma TFPQMF_init_success:
  assumes "even (cfg_taps cfg)" "0 \<le> cfg_taps cfg" "0 < cfg_cutoff_ratio cfg"
    "cfg_cutoff_ratio cfg < 1" "0 \<le> cfg_subbands cfg"
  shows "\<exists>p. TFPQMF_init cfg = Inr p"
proof -
  obtain w where "kaiser (cfg_taps cfg + 1) (cfg_beta cfg) = Inr w"
    using kaiser_window[OF assms(2,1), of "cfg_beta cfg"] by blast
  from dpf_unfold[OF assms(1-4) this] assms(5) show ?thesis
    by (simp add: TFPQMF_init_def Let_def)
qed

lemma analysis_filter_shape_entries:
  assumes "length h_proto = nat (taps + 1)" "0 \<le> taps" "1 \<le> subbands"
  defines "a \<equiv> np_transpose_210 (np_expand_dims_1 (h_analysis subbands taps h_proto))"
  shows "np_shape3 a = (nat (taps + 1), 1, nat subbands)"
    and "\<And>n k. n < nat (taps + 1) \<Longrightarrow> k < nat subbands \<Longrightarrow>
           a ! n ! 0 ! k = analysis_row subbands taps h_proto k ! n"
proof -
  let ?rows = "h_analysis subbands taps h_proto"
  have ne: "?rows \<noteq> []" using assms(3) by (simp add: h_analysis_rows)
  have r0: "?rows ! 0 = analysis_row subbands taps h_proto 0"
    using assms(3) by (simp add: h_analysis_rows)
  have sh: "np_shape3 (np_expand_dims_1 ?rows) = (nat subbands, 1, nat (taps + 1))"
    using shape_expand_dims_1[OF ne] assms(1)
    by (simp add: r0 length_analysis_row) (simp add: h_analysis_rows)
  show "np_shape3 a = (nat (taps + 1), 1, nat subbands)"
    unfolding a_def using assms(2) by (intro shape_transpose_210[OF sh]) auto
  show "a ! n ! 0 ! k = analysis_row subbands taps h_proto k ! n"
    if "n < nat (taps + 1)" "k < nat subbands" for n k
    unfolding a_def using nth_transpose_210[OF sh that(1) _ that(2), of 0] that(2)
    by (simp add: np_expand_dims_1_def h_analysis_rows)
qed

lemma synthesis_filter_shape_entries:
  assumes "length h_proto = nat (taps + 1)" "0 \<le> taps" "1 \<le> subbands"
  defines "a \<equiv> np_transpose_210 (np_expand_dims_0 (h_synthesis subbands taps h_proto))"
  shows "np_shape3 a = (nat (taps + 1), nat subbands, 1)"
    and "\<And>n k. n < nat (taps + 1) \<Longrightarrow> k < nat subbands \<Longrightarrow>
           a ! n ! k ! 0 = synthesis_row subbands taps h_proto k ! n"
proof -
  let ?rows = "h_synthesis subbands taps h_proto"
  have ne: "?rows \<noteq> []" using assms(3) by (simp add: h_synthesis_rows)
  have r0: "?rows ! 0 = synthesis_row subbands taps h_proto 0"
    using assms(3) by (simp add: h_synthesis_rows)
  have sh: "np_shape3 (np_expand_dims_0 ?rows) = (1, nat subbands, nat (taps + 1))"
    using shape_expand_dims_0[OF ne] assms(1)
    by (simp add: r0 length_synthesis_row) (simp add: h_synthesis_rows)
  show "np_shape3 a = (nat (taps + 1), nat subbands, 1)"
    unfolding a_def using assms(2,3) by (intro shape_transpose_210[OF sh]) auto
  show "a ! n ! k ! 0 = synthesis_row subbands taps h_proto k ! n"
    if "n < nat (taps + 1)" "k < nat subbands" for n k
    unfolding a_def using nth_transpose_210[OF sh that(1) that(2), of 0] that(2)
    by (simp add: np_expand_dims_0_def h_synthesis_rows)
qed


lemma updown4:
  "make_updown_filter 4 =
     [[[Fin 1, Fin 0, Fin 0, Fin 0], [Fin 0, Fin 1, Fin 0, Fin 0],
       [Fin 0, Fin 0, Fin 1, Fin 0], [Fin 0, Fin 0, Fin 0, Fin 1]],
      [[Fin 0, Fin 0, Fin 0, Fin 0], [Fin 0, Fin 0, Fin 0, Fin 0],
       [Fin 0, Fin 0, Fin 0, Fin 0], [Fin 0, Fin 0, Fin 0, Fin 0]],
      [[Fin 0, Fin 0, Fin 0, Fin 0], [Fin 0, Fin 0, Fin 0, Fin 0],
       [Fin 0, Fin 0, Fin 0, Fin 0], [Fin 0, Fin 0, Fin 0, Fin 0]],
      [[Fin 0, Fin 0, Fin 0, Fin 0], [Fin 0, Fin 0, Fin 0, Fin 0],
       [Fin 0, Fin 0, Fin 0, Fin 0], [Fin 0, Fin 0, Fin 0, Fin 0]]]"
  by (simp add: make_updown_filter_def np_zeros3_def np_setitem3_def eval_nat_numeral upt_rec)


lemma shape_setitem3: "np_shape3 (np_setitem3 a i j k v) = np_shape3 a"
proof (cases a)
  case Nil
  thus ?thesis by (simp add: np_shape3_def np_setitem3_def)
next
  case (Cons r rs)
  show ?thesis
  proof (cases i)
    case (Suc i')
    thus ?thesis using Cons by (simp add: np_shape3_def np_setitem3_def)
  next
    case 0
    show ?thesis
    proof (cases r)
      case Nil
      thus ?thesis using Cons 0 by (simp add: np_shape3_def np_setitem3_def)
    next
      case (Cons c cs)
      thus ?thesis using \<open>a = r # rs\<close> 0
        by (cases j) (simp_all add: np_shape3_def np_setitem3_def)
    qed
  qed
qed

lemma shape_foldl_setitem3:
  "np_shape3 (foldl (\<lambda>u k. np_setitem3 u 0 k k v) z ks) = np_shape3 z"
  by (induction ks arbitrary: z) (simp_all add: shape_setitem3)

lemma shape_updown_filter:
  "1 \<le> subbands \<Longrightarrow>
   np_shape3 (make_updown_filter subbands) = (nat subbands, nat subbands, nat subbands)"
proof -
  assume "1 \<le> subbands"
  then obtain m where m: "nat subbands = Suc m" by (cases "nat subbands") auto
  have "np_shape3 (make_updown_filter subbands)
        = np_shape3 (np_zeros3 (nat subbands) (nat subbands) (nat subbands))"
    unfolding make_updown_filter_def
    by (rule shape_foldl_setitem3)
  thus ?thesis by (simp add: np_zeros3_def np_shape3_def m)
qed

lemma shape_scale3: "np_shape3 (np_scale3 a m) = np_shape3 a"
  by (cases a; cases "hd a") (simp_all add: np_shape3_def np_scale3_def)


text \<open>
  Claim C2. For the filterbank built by \<open>TFPQMF.__init__\<close>, every sub-band index
  \<open>k < subbands\<close> and every tap index \<open>n \<le> taps\<close>:
  \<open>h_analysis[k][n] = 2 h_proto[n] cos ((2k+1) (\<pi> / (2 subbands)) (n - taps/2) + (-1)^k \<pi>/4)\<close>
  and \<open>h_synthesis[k][n]\<close> is the same with the phase offset \<open>(-1)^k \<pi>/4\<close> subtracted,
  where \<open>h_proto\<close> is the prototype filter. The stored analysis filter holds
  \<open>h_analysis[k][n]\<close> at \<open>[n, 0, k]\<close>, the stored synthesis filter holds \<open>h_synthesis[k][n]\<close>
  at \<open>[n, k, 0]\<close>.
\<close>

theorem filterbank_cosine_modulation:
  assumes "TFPQMF_init cfg = Inr p" "k < nat (cfg_subbands cfg)" "n \<le> nat (cfg_taps cfg)"
  shows "\<exists>h_proto.
    design_prototype_filter (cfg_taps cfg) (cfg_cutoff_ratio cfg) (cfg_beta cfg) = Inr h_proto \<and>
    h_analysis (cfg_subbands cfg) (cfg_taps cfg) h_proto ! k ! n =
      np_mul (np_mul (Fin 2) (h_proto ! n))
        (Fin (cos ((2 * real k + 1) * (pi / (2 * real_of_int (cfg_subbands cfg)))
                     * (real n - real_of_int (cfg_taps cfg) / 2)
                   + (- 1) ^ k * pi / 4))) \<and>
    h_synthesis (cfg_subbands cfg) (cfg_taps cfg) h_proto ! k ! n =
      np_mul (np_mul (Fin 2) (h_proto ! n))
        (Fin (cos ((2 * real k + 1) * (pi / (2 * real_of_int (cfg_subbands cfg)))
                     * (real n - real_of_int (cfg_taps cfg) / 2)
                   - (- 1) ^ k * pi / 4))) \<and>
    analysis_filter p ! n ! 0 ! k = h_analysis (cfg_subbands cfg) (cfg_taps cfg) h_proto ! k ! n \<and>
    synthesis_filter p ! n ! k ! 0 = h_synthesis (cfg_subbands cfg) (cfg_taps cfg) h_proto ! k ! n"
proof -
  obtain h_proto where hp:
    "design_prototype_filter (cfg_taps cfg) (cfg_cutoff_ratio cfg) (cfg_beta cfg) = Inr h_proto"
    "analysis_filter p = np_transpose_210 (np_expand_dims_1
        (h_analysis (cfg_subbands cfg) (cfg_taps cfg) h_proto))"
    "synthesis_filter p = np_transpose_210 (np_expand_dims_0
        (h_synthesis (cfg_subbands cfg) (cfg_taps cfg) h_proto))"
    by (rule TFPQMF_init_Inr_D[OF assms(1)])
  note d = dpf_Inr_D[OF hp(1)]
  have len: "length h_proto = nat (cfg_taps cfg + 1)" by (rule dpf_props(1)[OF hp(1)])
  have n: "n < nat (cfg_taps cfg + 1)" using assms(3) d(2) by linarith
  have sb: "1 \<le> cfg_subbands cfg" using assms(2) by linarith
  have a: "h_analysis (cfg_subbands cfg) (cfg_taps cfg) h_proto ! k
           = analysis_row (cfg_subbands cfg) (cfg_taps cfg) h_proto k"
    using assms(2) by (simp add: h_analysis_rows)
  have s: "h_synthesis (cfg_subbands cfg) (cfg_taps cfg) h_proto ! k
           = synthesis_row (cfg_subbands cfg) (cfg_taps cfg) h_proto k"
    using assms(2) by (simp add: h_synthesis_rows)
  show ?thesis
  proof (intro exI[of _ h_proto] conjI)
    show "design_prototype_filter (cfg_taps cfg) (cfg_cutoff_ratio cfg) (cfg_beta cfg) = Inr h_proto"
      by (rule hp(1))
    show "h_analysis (cfg_subbands cfg) (cfg_taps cfg) h_proto ! k ! n =
      np_mul (np_mul (Fin 2) (h_proto ! n))
        (Fin (cos ((2 * real k + 1) * (pi / (2 * real_of_int (cfg_subbands cfg)))
                     * (real n - real_of_int (cfg_taps cfg) / 2)
                   + (- 1) ^ k * pi / 4)))"
      unfolding a using nth_analysis_row[OF len n] by simp
    show "h_synthesis (cfg_subbands cfg) (cfg_taps cfg) h_proto ! k ! n =
      np_mul (np_mul (Fin 2) (h_proto ! n))
        (Fin (cos ((2 * real k + 1) * (pi / (2 * real_of_int (cfg_subbands cfg)))
                     * (real n - real_of_int (cfg_taps cfg) / 2)
                   - (- 1) ^ k * pi / 4)))"
      unfolding s using nth_synthesis_row[OF len n] by simp
    show "analysis_filter p ! n ! 0 ! k
          = h_analysis (cfg_subbands cfg) (cfg_taps cfg) h_proto ! k ! n"
      unfolding a hp(2) by (rule analysis_filter_shape_entries(2)[OF len d(2) sb n assms(2)])
    show "synthesis_filter p ! n ! k ! 0
          = h_synthesis (cfg_subbands cfg) (cfg_taps cfg) h_proto ! k ! n"
      unfolding s hp(3) by (rule synthesis_filter_shape_entries(2)[OF len d(2) sb n assms(2)])
  qed
qed


text \<open>
  Claim C7. For \<open>subbands = 4\<close>, \<open>taps = 62\<close>, \<open>cutoff_ratio = 0.15\<close>, \<open>beta = 9.0\<close> (and any
  values of the other configuration fields) \<open>TFPQMF.__init__\<close> succeeds with an analysis
  filter of shape \<open>(63, 1, 4)\<close>, a synthesis filter of shape \<open>(63, 4, 1)\<close> and a routing
  filter of shape \<open>(4, 4, 4)\<close> that is zero except for the four entries \<open>1\<close> at
  \<open>[0,0,0]\<close>, \<open>[0,1,1]\<close>, \<open>[0,2,2]\<close>, \<open>[0,3,3]\<close>.
\<close>

theorem default_filterbank_shapes:
  "\<exists>p. TFPQMF_init (cfg\<lparr>cfg_subbands := 4, cfg_taps := 62,
                          cfg_cutoff_ratio := 0.15, cfg_beta := 9\<rparr>) = Inr p \<and>
       np_shape3 (analysis_filter p) = (63, 1, 4) \<and>
       np_shape3 (synthesis_filter p) = (63, 4, 1) \<and>
       np_shape3 (updown_filter p) = (4, 4, 4) \<and>
       updown_filter p =
         [[[Fin 1, Fin 0, Fin 0, Fin 0], [Fin 0, Fin 1, Fin 0, Fin 0],
           [Fin 0, Fin 0, Fin 1, Fin 0], [Fin 0, Fin 0, Fin 0, Fin 1]],
          [[Fin 0, Fin 0, Fin 0, Fin 0], [Fin 0, Fin 0, Fin 0, Fin 0],
           [Fin 0, Fin 0, Fin 0, Fin 0], [Fin 0, Fin 0, Fin 0, Fin 0]],
          [[Fin 0, Fin 0, Fin 0, Fin 0], [Fin 0, Fin 0, Fin 0, Fin 0],
           [Fin 0, Fin 0, Fin 0, Fin 0], [Fin 0, Fin 0, Fin 0, Fin 0]],
          [[Fin 0, Fin 0, Fin 0, Fin 0], [Fin 0, Fin 0, Fin 0, Fin 0],
           [Fin 0, Fin 0, Fin 0, Fin 0], [Fin 0, Fin 0, Fin 0, Fin 0]]]"
proof -
  let ?c = "cfg\<lparr>cfg_subbands := 4, cfg_taps := 62, cfg_cutoff_ratio := 0.15, cfg_beta := 9\<rparr>"
  obtain p where p: "TFPQMF_init ?c = Inr p"
    using TFPQMF_init_success[of ?c] by auto
  obtain h_proto where hp:
    "design_prototype_filter (cfg_taps ?c) (cfg_cutoff_ratio ?c) (cfg_beta ?c) = Inr h_proto"
    "analysis_filter p = np_transpose_210 (np_expand_dims_1
        (h_analysis (cfg_subbands ?c) (cfg_taps ?c) h_proto))"
    "synthesis_filter p = np_transpose_210 (np_expand_dims_0
        (h_synthesis (cfg_subbands ?c) (cfg_taps ?c) h_proto))"
    "updown_filter p = make_updown_filter (cfg_subbands ?c)"
    by (rule TFPQMF_init_Inr_D[OF p])
  have len: "length h_proto = nat (cfg_taps ?c + 1)" by (rule dpf_props(1)[OF hp(1)])
  have a: "np_shape3 (analysis_filter p) = (63, 1, 4)"
    unfolding hp(2) using analysis_filter_shape_entries(1)[OF len] by simp
  have s: "np_shape3 (synthesis_filter p) = (63, 4, 1)"
    unfolding hp(3) using synthesis_filter_shape_entries(1)[OF len] by simp
  have u: "updown_filter p = make_updown_filter 4" using hp(4) by simp
  have us: "np_shape3 (updown_filter p) = (4, 4, 4)"
    unfolding u using shape_updown_filter[of 4] by simp
  show ?thesis using p a s us u unfolding updown4 by blast
qed


lemma example_pqmf: "\<exists>p. TFPQMF_init example_config = Inr p"
  by (rule TFPQMF_init_success) (simp_all add: example_config_def)

text \<open>C2 for the example configuration, at sub-band 1 and tap 5.\<close>

theorem filterbank_cosine_modulation_witness:
  "\<exists>p h_proto.
     TFPQMF_init example_config = Inr p \<and>
     design_prototype_filter 62 0.15 9 = Inr h_proto \<and>
     analysis_filter p ! 5 ! 0 ! 1 = h_analysis 4 62 h_proto ! 1 ! 5 \<and>
     h_analysis 4 62 h_proto ! 1 ! 5 =
       np_mul (np_mul (Fin 2) (h_proto ! 5)) (Fin (cos (3 * (pi / 8) * (5 - 31) - pi / 4))) \<and>
     synthesis_filter p ! 5 ! 1 ! 0 = h_synthesis 4 62 h_proto ! 1 ! 5 \<and>
     h_synthesis 4 62 h_proto ! 1 ! 5 =
       np_mul (np_mul (Fin 2) (h_proto ! 5)) (Fin (cos (3 * (pi / 8) * (5 - 31) + pi / 4)))"
proof -
  obtain p where p: "TFPQMF_init example_config = Inr p" using example_pqmf by blast
  show ?thesis
    using filterbank_cosine_modulation[OF p, of 1 5] p
    by (simp add: example_config_def) blast
qed


section \<open>Shapes: the PQMF operations and the generator\<close>

lemma pqmf_shapes:
  assumes "TFPQMF_init cfg = Inr p" "1 \<le> cfg_subbands cfg"
  shows "np_shape3 (analysis_filter p) = (nat (cfg_taps cfg + 1), 1, nat (cfg_subbands cfg))"
    and "np_shape3 (synthesis_filter p) = (nat (cfg_taps cfg + 1), nat (cfg_subbands cfg), 1)"
    and "np_shape3 (updown_filter p)
         = (nat (cfg_subbands cfg), nat (cfg_subbands cfg), nat (cfg_subbands cfg))"
    and "pqmf_subbands p = cfg_subbands cfg" "pqmf_taps p = cfg_taps cfg"
    and "even (cfg_taps cfg)" "0 \<le> cfg_taps cfg"
proof -
  obtain h_proto where hp:
    "design_prototype_filter (cfg_taps cfg) (cfg_cutoff_ratio cfg) (cfg_beta cfg) = Inr h_proto"
    "pqmf_subbands p = cfg_subbands cfg"
    "pqmf_taps p = cfg_taps cfg"
    "analysis_filter p = np_transpose_210 (np_expand_dims_1
        (h_analysis (cfg_subbands cfg) (cfg_taps cfg) h_proto))"
    "synthesis_filter p = np_transpose_210 (np_expand_dims_0
        (h_synthesis (cfg_subbands cfg) (cfg_taps cfg) h_proto))"
    "updown_filter p = make_updown_filter (cfg_subbands cfg)"
    by (rule TFPQMF_init_Inr_D[OF assms(1)])
  note d = dpf_Inr_D[OF hp(1)]
  have len: "length h_proto = nat (cfg_taps cfg + 1)" by (rule dpf_props(1)[OF hp(1)])
  show "np_shape3 (analysis_filter p) = (nat (cfg_taps cfg + 1), 1, nat (cfg_subbands cfg))"
    unfolding hp(4) by (rule analysis_filter_shape_entries(1)[OF len d(2) assms(2)])
  show "np_shape3 (synthesis_filter p) = (nat (cfg_taps cfg + 1), nat (cfg_subbands cfg), 1)"
    unfolding hp(5) by (rule synthesis_filter_shape_entries(1)[OF len d(2) assms(2)])
  show "np_shape3 (updown_filter p)
         = (nat (cfg_subbands cfg), nat (cfg_subbands cfg), nat (cfg_subbands cfg))"
    unfolding hp(6) by (rule shape_updown_filter[OF assms(2)])
  show "pqmf_subbands p = cfg_subbands cfg" "pqmf_taps p = cfg_taps cfg" by (rule hp(2), rule hp(3))
  show "even (cfg_taps cfg)" "0 \<le> cfg_taps cfg" by (rule d(1), rule d(2))
qed

lemma pad_conv_same_length:
  assumes "even taps" "0 \<le> taps"
  shows "tf_pad_time (taps div 2) (b, t, c) = Inr (b, t + nat taps, c)"
    and "tf_conv1d_valid (nat (taps + 1), c, c') 1 (b, t + nat taps, c) = Inr (b, t, c')"
proof -
  have "nat (taps div 2) + t + nat (taps div 2) = t + nat taps"
    using assms by (auto elim!: evenE)
  thus "tf_pad_time (taps div 2) (b, t, c) = Inr (b, t + nat taps, c)"
    using assms(2) by (simp add: tf_pad_time_def)
  have "int (t + nat taps) - int (nat (taps + 1)) + 1 = int t" using assms(2) by simp
  thus "tf_conv1d_valid (nat (taps + 1), c, c') 1 (b, t + nat taps, c) = Inr (b, t, c')"
    by (simp add: tf_conv1d_valid_def Let_def)
qed

lemma analysis_shape:
  assumes "TFPQMF_init cfg = Inr p" "1 \<le> cfg_subbands cfg"
  shows "analysis p (b, t, 1)
         = Inr (b, t div nat (cfg_subbands cfg), nat (cfg_subbands cfg))"
proof -
  note s = pqmf_shapes[OF assms]
  let ?S = "cfg_subbands cfg"
  have "int t - int (nat ?S) + ?S = int t" using assms(2) by simp
  moreover have "nat (int t div ?S) = t div nat ?S"
    using assms(2) by (simp add: nat_div_distrib)
  moreover have "0 \<le> int t div ?S"
    using assms(2) by (simp add: pos_imp_zdiv_nonneg_iff)
  ultimately have down: "tf_conv1d_valid (nat ?S, nat ?S, nat ?S) ?S (b, t, nat ?S)
                   = Inr (b, t div nat ?S, nat ?S)"
    using assms(2) by (simp add: tf_conv1d_valid_def Let_def)
  show ?thesis
    unfolding analysis_def s(1,3,4,5)
    by (simp add: pad_conv_same_length[OF s(6,7)] down)
qed


lemma synthesis_shape:
  assumes "TFPQMF_init cfg = Inr p" "1 \<le> cfg_subbands cfg"
  shows "synthesis p (b, t, nat (cfg_subbands cfg)) = Inr (b, t * nat (cfg_subbands cfg), 1)"
proof -
  note s = pqmf_shapes[OF assms]
  let ?S = "cfg_subbands cfg"
  have "(int t * ?S + ?S - 1) div ?S = int t"
  proof -
    have "int t * ?S + ?S - 1 = ?S * int t + (?S - 1)" by simp
    thus ?thesis using assms(2) by (intro int_div_pos_eq[of _ ?S "int t" "?S - 1"]) simp_all
  qed
  moreover have "nat (int t * ?S) = t * nat ?S"
    using assms(2) by (simp add: nat_mult_distrib)
  moreover have "0 \<le> int t * ?S" using assms(2) by simp
  ultimately have up: "tf_conv1d_transpose (nat ?S, nat ?S, nat ?S) (int b, int t * ?S, ?S) ?S
                   (b, t, nat ?S) = Inr (b, t * nat ?S, nat ?S)"
    using assms(2) by (simp add: tf_conv1d_transpose_def mult_less_0_iff)
  show ?thesis
    unfolding synthesis_def shape_scale3 s(2,3,4,5)
    by (simp add: up pad_conv_same_length[OF s(6,7)])
qed

text \<open>
  Claim C3 (as amended: the analysis length is \<open>floor (T / subbands)\<close>). For a filterbank
  built by \<open>TFPQMF.__init__\<close> with \<open>subbands \<ge> 1\<close>: \<open>analysis\<close> maps an input of shape
  \<open>(batch, T, 1)\<close> to the shape \<open>(batch, floor (T / subbands), subbands)\<close>, because the
  padding of \<open>taps / 2\<close> on each side is used up by the filter of width \<open>taps + 1\<close> before
  the decimation; \<open>synthesis\<close> maps an input of shape \<open>(batch, T', subbands)\<close> to the shape
  \<open>(batch, T' * subbands, 1)\<close>.
\<close>

theorem pqmf_shape_contract:
  assumes "TFPQMF_init cfg = Inr p" "1 \<le> cfg_subbands cfg"
  shows "analysis p (batch, T, 1)
           = Inr (batch, T div nat (cfg_subbands cfg), nat (cfg_subbands cfg)) \<and>
         synthesis p (batch, T', nat (cfg_subbands cfg))
           = Inr (batch, T' * nat (cfg_subbands cfg), 1)"
proof
  note s = pqmf_shapes[OF assms]
  let ?S = "cfg_subbands cfg"
  note dense = pad_conv_same_length[OF s(6,7)]
  have "int T - int (nat ?S) + ?S = int T" using assms(2) by simp
  moreover have "nat (int T div ?S) = T div nat ?S"
    using assms(2) by (simp add: nat_div_distrib)
  moreover have "0 \<le> int T div ?S"
    using assms(2) by (simp add: pos_imp_zdiv_nonneg_iff)
  ultimately have decimate: "tf_conv1d_valid (nat ?S, nat ?S, nat ?S) ?S (batch, T, nat ?S)
                   = Inr (batch, T div nat ?S, nat ?S)"
    using assms(2) by (simp add: tf_conv1d_valid_def Let_def)
  show "analysis p (batch, T, 1) = Inr (batch, T div nat ?S, nat ?S)"
    unfolding analysis_def s(1,3,4,5) by (simp add: dense decimate)
  show "synthesis p (batch, T', nat ?S) = Inr (batch, T' * nat ?S, 1)"
    by (rule synthesis_shape[OF assms])
qed

text \<open>C3 for the example configuration: 25600 samples and their 6400 sub-band frames.\<close>

theorem pqmf_shape_contract_witness:
  "\<exists>p. TFPQMF_init example_config = Inr p \<and>
       analysis p (1, 25600, 1) = Inr (1, 6400, 4) \<and>
       synthesis p (1, 6400, 4) = Inr (1, 25600, 1)"
proof -
  obtain p where p: "TFPQMF_init example_config = Inr p" using example_pqmf by blast
  have s: "1 \<le> cfg_subbands example_config" by (simp add: example_config_def)
  show ?thesis
    using pqmf_shape_contract[OF p s, of 1 25600 6400] p
    by (simp add: example_config_def)
qed

text \<open>
  C3 as stated gives \<open>floor ((T + taps) / subbands)\<close> for the analysis length: with
  \<open>taps = 62\<close> and \<open>subbands = 4\<close> an input of 16 samples yields 4 frames, not
  \<open>floor (78 / 4) = 19\<close>.
\<close>

theorem analysis_length_counterexample:
  "\<not> isl (TFPQMF_init example_config) \<and>
   analysis (projr (TFPQMF_init example_config)) (1, 16, 1) = Inr (1, 4, 4) \<and>
   cfg_taps example_config = 62 \<and> cfg_subbands example_config = 4 \<and>
   (4 :: nat) \<noteq> (16 + 62) div 4"
proof -
  obtain p where p: "TFPQMF_init example_config = Inr p" using example_pqmf by blast
  have s: "1 \<le> cfg_subbands example_config" by (simp add: example_config_def)
  show ?thesis
    using analysis_shape[OF p s, of 1 16] p
    by (simp add: example_config_def)
qed


lemma design_prototype_filter_error_cases:
  assumes "design_prototype_filter taps c beta = Inl e"
  shows "e = AssertionError ''The number of taps mush be even number.'' \<or>
         e = AssertionError ''Cutoff ratio must be > 0.0 and < 1.0.'' \<or>
         e = IndexError \<or> e = ValueError"
  using assms
  by (auto simp: design_prototype_filter_def np_setitem_def kaiser_def Let_def
           split: if_splits sum.splits)

lemma TFPQMF_init_no_config_error: "TFPQMF_init cfg \<noteq> Inl (AssertionError [])"
proof
  assume a: "TFPQMF_init cfg = Inl (AssertionError [])"
  show False
  proof (cases "design_prototype_filter (cfg_taps cfg) (cfg_cutoff_ratio cfg) (cfg_beta cfg)")
    case (Inl e)
    hence "e = AssertionError []" using a by (simp add: TFPQMF_init_def Let_def)
    thus False using design_prototype_filter_error_cases[OF Inl] by simp
  next
    case (Inr h)
    thus False using a by (simp add: TFPQMF_init_def Let_def split: if_splits)
  qed
qed

lemma int64_wrap_id: "fits_int64 z \<Longrightarrow> int64_wrap z = z"
  by (simp add: fits_int64_def int64_wrap_def)

lemma np_prod_exact: "fits_int64 (prod_list xs) \<Longrightarrow> np_prod xs = prod_list xs"
  by (simp add: np_prod_def int64_wrap_id)

text \<open>
  Claim C9 (as amended: the product of the scales is the one NumPy computes, the exact
  product whenever it fits in 64 bits). The specification's \<open>InvalidConfiguration\<close> is the
  \<open>AssertionError\<close> (without message) of the two checks at the head of
  \<open>MBMelGANGenerator.__init__\<close>. For upsampling scales that fit, together with their
  product, in a signed 64-bit integer: construction fails with it whenever
  \<open>filters < product (upsample_scales)\<close> and whenever \<open>filters\<close> is not divisible by
  \<open>2 ^ len (upsample_scales)\<close>; when both conditions hold, construction does not raise it.
\<close>

theorem generator_configuration_check:
  assumes "list_all fits_int64 (cfg_upsample_scales cfg)"
    and "fits_int64 (prod_list (cfg_upsample_scales cfg))"
  shows
  "(cfg_filters cfg < prod_list (cfg_upsample_scales cfg) \<longrightarrow>
      MBMelGANGenerator_init cfg = Inl (AssertionError [])) \<and>
   (cfg_filters cfg mod 2 ^ length (cfg_upsample_scales cfg) \<noteq> 0 \<longrightarrow>
      MBMelGANGenerator_init cfg = Inl (AssertionError [])) \<and>
   (prod_list (cfg_upsample_scales cfg) \<le> cfg_filters cfg \<and>
    cfg_filters cfg mod 2 ^ length (cfg_upsample_scales cfg) = 0 \<longrightarrow>
      MBMelGANGenerator_init cfg \<noteq> Inl (AssertionError []))"
proof (intro conjI impI)
  note p = np_prod_exact[OF assms(2)]
  {
    assume "cfg_filters cfg < prod_list (cfg_upsample_scales cfg)"
    thus "MBMelGANGenerator_init cfg = Inl (AssertionError [])"
      using assms(1) by (simp add: MBMelGANGenerator_init_def p)
  next
    assume "cfg_filters cfg mod 2 ^ length (cfg_upsample_scales cfg) \<noteq> 0"
    thus "MBMelGANGenerator_init cfg = Inl (AssertionError [])"
      using assms(1) by (simp add: MBMelGANGenerator_init_def p)
  next
    assume ok: "prod_list (cfg_upsample_scales cfg) \<le> cfg_filters cfg \<and>
      cfg_filters cfg mod 2 ^ length (cfg_upsample_scales cfg) = 0"
    show "MBMelGANGenerator_init cfg \<noteq> Inl (AssertionError [])"
    proof (cases "TFPQMF_init cfg")
      case (Inl e)
      hence "MBMelGANGenerator_init cfg = Inl e"
        using ok assms(1) by (simp add: MBMelGANGenerator_init_def p)
      thus ?thesis using TFPQMF_init_no_config_error[of cfg] Inl by simp
    next
      case (Inr q)
      thus ?thesis using ok assms(1) by (simp add: MBMelGANGenerator_init_def p)
    qed
  }
qed

text \<open>
  C9 for the example configuration (product 256, three scales) with \<open>filters\<close> set to
  128, to 260 and to 384.
\<close>

theorem generator_configuration_check_witness:
  "MBMelGANGenerator_init (example_config\<lparr>cfg_filters := 128\<rparr>) = Inl (AssertionError []) \<and>
   MBMelGANGenerator_init (example_config\<lparr>cfg_filters := 260\<rparr>) = Inl (AssertionError []) \<and>
   MBMelGANGenerator_init example_config \<noteq> Inl (AssertionError [])"
proof -
  have s: "list_all fits_int64 (cfg_upsample_scales (example_config\<lparr>cfg_filters := f\<rparr>))"
    "fits_int64 (prod_list (cfg_upsample_scales (example_config\<lparr>cfg_filters := f\<rparr>)))" for f
    by (simp_all add: example_config_def fits_int64_def)
  have e: "example_config\<lparr>cfg_filters := 384\<rparr> = example_config"
    by (simp add: example_config_def)
  show ?thesis
    using generator_configuration_check[OF s, of 128]
      generator_configuration_check[OF s, of 260]
      generator_configuration_check[OF s, of 384]
    unfolding e by (simp add: example_config_def)
qed

text \<open>
  C9 as stated compares \<open>filters\<close> with the product of the scales: for the scales
  \<open>[2^32, 2^32]\<close> the 64-bit product wraps around to 0, so \<open>filters = 4\<close> passes both
  checks and the generator is constructed, although \<open>4 < 2^64\<close>.
\<close>

theorem generator_product_wraps_counterexample:
  "cfg_filters (example_config\<lparr>cfg_upsample_scales := [2 ^ 32, 2 ^ 32], cfg_filters := 4\<rparr>)
     < prod_list (cfg_upsample_scales
         (example_config\<lparr>cfg_upsample_scales := [2 ^ 32, 2 ^ 32], cfg_filters := 4\<rparr>)) \<and>
   \<not> isl (MBMelGANGenerator_init
           (example_config\<lparr>cfg_upsample_scales := [2 ^ 32, 2 ^ 32], cfg_filters := 4\<rparr>))"
proof -
  let ?c = "example_config\<lparr>cfg_upsample_scales := [2 ^ 32, 2 ^ 32], cfg_filters := 4\<rparr>"
  have "\<exists>p. TFPQMF_init ?c = Inr p"
    by (rule TFPQMF_init_success) (simp_all add: example_config_def)
  then obtain p where p: "TFPQMF_init ?c = Inr p" by blast
  have w: "np_prod [4294967296, 4294967296] = 0"
    by (simp add: np_prod_def int64_wrap_def)
  have f: "list_all fits_int64 (cfg_upsample_scales ?c)"
    by (simp add: fits_int64_def)
  have "MBMelGANGenerator_init ?c = Inr \<lparr> melgan = melgan_layers ?c, pqmf = p \<rparr>"
    unfolding MBMelGANGenerator_init_def using p f by (simp add: w)
  thus ?thesis by simp
qed

lemma sequential_append:
  "sequential (xs @ ys) x =
     (case sequential xs x of Inl e \<Rightarrow> Inl e | Inr y \<Rightarrow> sequential ys y)"
  by (induction xs arbitrary: x) (simp_all split: sum.splits)

lemma sequential_residual_stacks:
  "sequential (map (\<lambda>j. TFResidualStack (a j) (f j) (d j)) js) x = Inr x"
  by (induction js) simp_all

lemma upsample_layers_shape:
  assumes "\<forall>s\<in>set scales. 1 \<le> s"
  shows "\<exists>c'. sequential (upsample_layers cfg i scales) (b, t, c)
              = Inr (b, t * nat (prod_list scales), c')"
  using assms
proof (induction scales arbitrary: i t c)
  case Nil
  show ?case by simp
next
  case (Cons s rest)
  hence s: "1 \<le> s" and r: "\<forall>s\<in>set rest. 1 \<le> s" by simp_all
  have p: "0 \<le> prod_list rest" using r by (induction rest) simp_all
  obtain c' where c': "sequential (upsample_layers cfg (i + 1) rest)
                         (b, t * nat s, nat (cfg_filters cfg div 2 ^ (i + 1)))
                       = Inr (b, t * nat s * nat (prod_list rest), c')"
    using Cons.IH[OF r] by blast
  have "nat (s * prod_list rest) = nat s * nat (prod_list rest)"
    using s by (simp add: nat_mult_distrib)
  thus ?case
    using s c' by (simp add: sequential_append sequential_residual_stacks mult.assoc)
qed

lemma melgan_shape:
  assumes "odd (cfg_kernel_size cfg)" "1 \<le> cfg_kernel_size cfg"
    "\<forall>s\<in>set (cfg_upsample_scales cfg). 1 \<le> s"
  shows "sequential (melgan_layers cfg) (b, t, c)
         = Inr (b, t * nat (prod_list (cfg_upsample_scales cfg)), nat (cfg_out_channels cfg))"
proof -
  let ?k = "cfg_kernel_size cfg"
  let ?p = "(?k - 1) div 2"
  have p0: "0 \<le> ?p" using assms(2) by simp
  have k: "int (nat ?p + u + nat ?p) + 1 - ?k = int u" for u
    using assms(1,2) by (auto elim!: oddE)
  have conv: "layer_shape (Conv1D f ?k) (b, nat ?p + u + nat ?p, c0) = Inr (b, u, nat f)" for f u c0
    using k[of u] assms(2) by simp
  obtain c' where up: "sequential (upsample_layers cfg 0 (cfg_upsample_scales cfg))
                         (b, t, nat (cfg_filters cfg))
                       = Inr (b, t * nat (prod_list (cfg_upsample_scales cfg)), c')"
    using upsample_layers_shape[OF assms(3)] by blast
  show ?thesis
    unfolding melgan_layers_def
    using p0 by (simp add: sequential_append conv up del: layer_shape.simps(2))
qed


lemma MBMelGANGenerator_init_Inr_D:
  assumes "MBMelGANGenerator_init cfg = Inr g"
  shows "melgan g = melgan_layers cfg" "TFPQMF_init cfg = Inr (pqmf g)"
  using assms
  by (auto simp: MBMelGANGenerator_init_def split: if_splits sum.splits)

lemma example_generator: "\<exists>g. MBMelGANGenerator_init example_config = Inr g"
proof -
  obtain p where p: "TFPQMF_init example_config = Inr p" using example_pqmf by blast
  have "np_prod (cfg_upsample_scales example_config) = 256"
    by (simp add: example_config_def np_prod_def int64_wrap_def)
  moreover have "list_all fits_int64 (cfg_upsample_scales example_config)"
    by (simp add: example_config_def fits_int64_def)
  moreover have "cfg_filters example_config = 384"
    "length (cfg_upsample_scales example_config) = 3"
    by (simp_all add: example_config_def)
  ultimately show ?thesis using p by (simp add: MBMelGANGenerator_init_def)
qed

lemma example_inference:
  assumes "MBMelGANGenerator_init example_config = Inr g"
  shows "inference g (1, 100, 80) = Inr (1, 102400, 1)"
proof -
  note g = MBMelGANGenerator_init_Inr_D[OF assms]
  have m: "sequential (melgan_layers example_config) (b, 100, 80) = Inr (b, 25600, 4)" for b
    using melgan_shape[of example_config b 100 80] by (simp add: example_config_def)
  have s: "synthesis (pqmf g) (b, 25600, 4) = Inr (b, 102400, c)" if "c = 1" for b c
    using synthesis_shape[OF g(2), of b 25600] that by (simp add: example_config_def)
  show ?thesis by (simp add: inference_def g(1) m s)
qed

text \<open>
  Claim C4 (as amended: the synthesis filterbank multiplies the time length by
  \<open>subbands\<close> and leaves one channel). For a generator built from a configuration with an
  odd kernel size, positive upsampling scales and \<open>out_channels = subbands \<ge> 1\<close>,
  \<open>inference\<close> maps a mel-spectrogram of shape \<open>(batch, T, 80)\<close> to a waveform of shape
  \<open>(batch, T * product (upsample_scales) * subbands, 1)\<close>.
\<close>

theorem inference_output_shape:
  assumes "MBMelGANGenerator_init cfg = Inr g"
    and "odd (cfg_kernel_size cfg)" "1 \<le> cfg_kernel_size cfg"
    and "\<forall>s\<in>set (cfg_upsample_scales cfg). 1 \<le> s"
    and "cfg_out_channels cfg = cfg_subbands cfg" "1 \<le> cfg_subbands cfg"
  shows "inference g (batch, T, 80)
         = Inr (batch, T * nat (prod_list (cfg_upsample_scales cfg)) * nat (cfg_subbands cfg), 1)"
proof -
  have layers: "melgan g = melgan_layers cfg" and p: "TFPQMF_init cfg = Inr (pqmf g)"
    using assms(1) by (auto simp: MBMelGANGenerator_init_def split: if_splits sum.splits)
  let ?T = "T * nat (prod_list (cfg_upsample_scales cfg))"
  have net: "sequential (melgan g) (batch, T, 80) = Inr (batch, ?T, nat (cfg_subbands cfg))"
    unfolding layers using melgan_shape[OF assms(2,3,4), of batch T 80] assms(5) by simp
  have "synthesis (pqmf g) (batch, ?T, nat (cfg_subbands cfg))
        = Inr (batch, ?T * nat (cfg_subbands cfg), 1)"
    by (rule synthesis_shape[OF p assms(6)])
  thus ?thesis by (simp add: inference_def net)
qed

text \<open>
  C4 for the example configuration (scales \<open>[8, 8, 4]\<close>, four sub-bands) and 100 mel
  frames.
\<close>

theorem inference_output_shape_witness:
  "\<exists>g. MBMelGANGenerator_init example_config = Inr g \<and>
       inference g (1, 100, 80) = Inr (1, 100 * 256 * 4, 1)"
proof -
  obtain g where g: "MBMelGANGenerator_init example_config = Inr g"
    using example_generator by blast
  have "inference g (1, 100, 80)
        = Inr (1, 100 * nat (prod_list (cfg_upsample_scales example_config))
                    * nat (cfg_subbands example_config), 1)"
    by (rule inference_output_shape[OF g]) (simp_all add: example_config_def)
  thus ?thesis using g by (simp add: example_config_def)
qed

text \<open>
  C4 as stated gives the time length \<open>100 * 256 = 25600\<close> and, in general, \<open>out_channels\<close>
  channels: for the example configuration, with four sub-bands and as many output
  channels of the network, \<open>inference\<close> returns \<open>102400\<close> samples in one channel.
\<close>

theorem inference_length_counterexample:
  "\<not> isl (MBMelGANGenerator_init example_config) \<and>
   inference (projr (MBMelGANGenerator_init example_config)) (1, 100, 80)
     = Inr (1, 102400, 1) \<and>
   cfg_upsample_scales example_config = [8, 8, 4] \<and>
   cfg_out_channels example_config = 4 \<and>
   (102400 :: nat) \<noteq> 100 * 256"
proof -
  obtain g where g: "MBMelGANGenerator_init example_config = Inr g"
    using example_generator by blast
  show ?thesis using example_inference[OF g] g by (simp add: example_config_def)
qed

end
